theory Spec2Isabelle
  imports Complex_Main
begin

section \<open>Values exchanged with the server\<close>

text \<open>
  Request payloads and form values are plain JavaScript values. \<open>truthy\<close> is the test that
  \<^verbatim>\<open>||\<close>, \<^verbatim>\<open>!\<close> and \<^verbatim>\<open>if\<close> apply to them. A number is carried as the value it denotes and
  only tested against zero: no arithmetic of the program on its double-precision numbers is
  part of this development.
\<close>

datatype jsval =
    JUndefined
  | JNull
  | JBool bool
  | JNum rat
  | JStr string
  | JArr "jsval list"
  | JObj "(string \<times> jsval) list"

fun truthy :: "jsval \<Rightarrow> bool" where
  "truthy JUndefined = False"
| "truthy JNull = False"
| "truthy (JBool b) = b"
| "truthy (JNum n) = (n \<noteq> 0)"
| "truthy (JStr s) = (s \<noteq> [])"
| "truthy (JArr xs) = True"
| "truthy (JObj kvs) = True"

text \<open>\<^verbatim>\<open>a || b\<close> on values.\<close>

definition js_or :: "jsval \<Rightarrow> jsval \<Rightarrow> jsval" where
  "js_or a b = (if truthy a then a else b)"

text \<open>Property access \<^verbatim>\<open>o.k\<close>: \<^verbatim>\<open>undefined\<close> when the property is absent.\<close>

fun js_get :: "jsval \<Rightarrow> string \<Rightarrow> jsval" where
  "js_get (JObj kvs) k = (case map_of kvs k of Some v \<Rightarrow> v | None \<Rightarrow> JUndefined)"
| "js_get v k = JUndefined"

text \<open>
  Modelled from the spec: the enumeration \<^verbatim>\<open>MenuState\<close>, whose declaration is not among the
  sources. Its members are the three states of the menu lifecycle, \<open>Draft\<close>, \<open>Published\<close> and
  \<open>Active\<close>, which the store and the menu list name.
\<close>

datatype MenuState = Draft | Published | Active

text \<open>The cafe as the store's tests build it; its interface is not among the sources.\<close>

record CafeDto =
  cafe_id :: string
  cafe_name :: string
  cafe_contactInfo :: "string option"
  cafe_createdAt :: string
  cafe_updatedAt :: "string option"

record MenuSummaryDto =
  summary_menuId :: string
  summary_name :: string
  summary_state :: MenuState
  summary_createdAt :: string
  summary_updatedAt :: string

text \<open>The sections of a full menu play no part in the store's logic; they are carried as a value.\<close>

record MenuDto =
  menu_id :: string
  menu_name :: string
  menu_state :: MenuState
  menu_sections :: jsval
  menu_createdAt :: string
  menu_updatedAt :: string

text \<open>
  The response interfaces are not among the sources either; each is given with the one field
  that the stores read from it.
\<close>

record ListCafesResponse =
  response_cafes :: "CafeDto list"

record CreateCafeResponse =
  response_cafeId :: string

record ListMenusResponse =
  response_menus :: "MenuSummaryDto list"

record CreateMenuResponse =
  response_menuId :: string


section \<open>Asynchronous store methods\<close>

text \<open>
  What a rejected promise carries: an \<^verbatim>\<open>Error\<close> instance with its message, or any other value.
  Every catch block of the stores computes
  \<^verbatim>\<open>error instanceof Error ? error.message : '<default text>'\<close>.
\<close>

datatype rejection = ErrorInstance string | OtherRejection

fun errorMessage :: "rejection \<Rightarrow> string \<Rightarrow> string" where
  "errorMessage (ErrorInstance m) dflt = m"
| "errorMessage OtherRejection dflt = dflt"

text \<open>The REST operations a store can issue, with their arguments.\<close>

datatype api_call =
    ListCafes
  | GetCafe string
  | CreateCafe jsval
  | DeleteCafe string
  | ListMenus string
  | GetMenu string string
  | GetActiveMenu string
  | CreateMenu string jsval
  | UpdateMenu string string jsval
  | DeleteMenu string string
  | CloneMenu string string string
  | PublishMenu string string
  | ActivateMenu string string

text \<open>
  A store method is a computation over the store's state and the log of requests issued so
  far. It ends with a value (\<open>Inr\<close>) or with a thrown rejection (\<open>Inl\<close>). A call is modelled
  in isolation: no other store method runs between its first patch and its last, and console
  output is left out.
\<close>

type_synonym ('s, 'a) action = "'s \<times> api_call list \<Rightarrow> (rejection + 'a) \<times> ('s \<times> api_call list)"

definition return_a :: "'a \<Rightarrow> ('s, 'a) action" where
  "return_a v = (\<lambda>w. (Inr v, w))"

definition bind_a :: "('s, 'a) action \<Rightarrow> ('a \<Rightarrow> ('s, 'b) action) \<Rightarrow> ('s, 'b) action" where
  "bind_a m f = (\<lambda>w. case m w of (Inl e, w') \<Rightarrow> (Inl e, w') | (Inr v, w') \<Rightarrow> f v w')"

definition then_a :: "('s, 'a) action \<Rightarrow> ('s, 'b) action \<Rightarrow> ('s, 'b) action" where
  "then_a m n = bind_a m (\<lambda>_. n)"

definition try_catch :: "('s, 'a) action \<Rightarrow> (rejection \<Rightarrow> ('s, 'a) action) \<Rightarrow> ('s, 'a) action" where
  "try_catch m h = (\<lambda>w. case m w of (Inl e, w') \<Rightarrow> h e w' | (Inr v, w') \<Rightarrow> (Inr v, w'))"

text \<open>\<^verbatim>\<open>patchState(store, {...})\<close>; the patch may read the current state, as \<^verbatim>\<open>store.cafes()\<close> does.\<close>

definition patchState :: "('s \<Rightarrow> 's) \<Rightarrow> ('s, unit) action" where
  "patchState f = (\<lambda>(s, cs). (Inr (), (f s, cs)))"

text \<open>
  \<^verbatim>\<open>await firstValueFrom(api.call(...))\<close>: the request is logged and the server's outcome for
  it becomes the result, a rejection being thrown.
\<close>

definition await_call :: "api_call \<Rightarrow> rejection + 'a \<Rightarrow> ('s, 'a) action" where
  "await_call c r = (\<lambda>(s, cs). (r, (s, cs @ [c])))"

text \<open>
  \<^verbatim>\<open>await Promise.all([...])\<close>: every request of the array is issued, and the await throws
  when one of them rejects. When several reject, JavaScript takes the one that settles first;
  the model takes them in array order, which only decides the message that reaches the
  \<open>error\<close> field.
\<close>

definition await_all2 ::
  "api_call \<Rightarrow> rejection + 'a \<Rightarrow> api_call \<Rightarrow> rejection + 'b \<Rightarrow> ('s, 'a \<times> 'b) action" where
  "await_all2 c1 r1 c2 r2 = (\<lambda>(s, cs).
     ((case r1 of Inl e \<Rightarrow> Inl e
       | Inr a \<Rightarrow> (case r2 of Inl e \<Rightarrow> Inl e | Inr b \<Rightarrow> Inr (a, b))),
      (s, cs @ [c1, c2])))"

definition await_all3 ::
  "api_call \<Rightarrow> rejection + 'a \<Rightarrow> api_call \<Rightarrow> rejection + 'b \<Rightarrow> api_call \<Rightarrow> rejection + 'c
     \<Rightarrow> ('s, 'a \<times> 'b \<times> 'c) action" where
  "await_all3 c1 r1 c2 r2 c3 r3 = (\<lambda>(s, cs).
     ((case r1 of Inl e \<Rightarrow> Inl e
       | Inr a \<Rightarrow> (case r2 of Inl e \<Rightarrow> Inl e
          | Inr b \<Rightarrow> (case r3 of Inl e \<Rightarrow> Inl e | Inr c \<Rightarrow> Inr (a, b, c)))),
      (s, cs @ [c1, c2, c3])))"

text \<open>Running a method from a state, with an empty request log.\<close>

definition run :: "('s, 'a) action \<Rightarrow> 's \<Rightarrow> (rejection + 'a) \<times> ('s \<times> api_call list)" where
  "run m s = m (s, [])"

definition result_of :: "('s, 'a) action \<Rightarrow> 's \<Rightarrow> rejection + 'a" where
  "result_of m s = fst (run m s)"

definition state_after :: "('s, 'a) action \<Rightarrow> 's \<Rightarrow> 's" where
  "state_after m s = fst (snd (run m s))"

definition calls_of :: "('s, 'a) action \<Rightarrow> 's \<Rightarrow> api_call list" where
  "calls_of m s = snd (snd (run m s))"

record StoreFlags =
  loading :: bool
  error :: "string option"


subsection \<open>CafeStore\<close>

record CafeState = StoreFlags +
  cafes :: "CafeDto list"
  selectedCafe :: "CafeDto option"

text \<open>The server's outcome for each request of \<^verbatim>\<open>CafeApiService\<close>.\<close>

record CafeApi =
  api_listCafes :: "rejection + ListCafesResponse"
  api_getCafe :: "string \<Rightarrow> rejection + CafeDto"
  api_createCafe :: "jsval \<Rightarrow> rejection + CreateCafeResponse"
  api_deleteCafe :: "string \<Rightarrow> rejection + unit"

definition cafe_initialState :: CafeState where
  "cafe_initialState = \<lparr> loading = False, error = None, cafes = [], selectedCafe = None \<rparr>"

definition cafeCount :: "CafeState \<Rightarrow> nat" where
  "cafeCount s = length (cafes s)"

definition hasCafes :: "CafeState \<Rightarrow> bool" where
  "hasCafes s = (length (cafes s) > 0)"

definition loadCafes :: "CafeApi \<Rightarrow> (CafeState, unit) action" where
  "loadCafes cafeApi =
     then_a (patchState (\<lambda>s. s\<lparr>loading := True, error := None\<rparr>))
       (try_catch
          (bind_a (await_call ListCafes (api_listCafes cafeApi)) (\<lambda>response.
             patchState (\<lambda>s. s\<lparr>cafes := response_cafes response, loading := False\<rparr>)))
          (\<lambda>err. patchState (\<lambda>s. s\<lparr>error := Some (errorMessage err ''Failed to load cafes''),
                                        loading := False\<rparr>)))"

definition selectCafe :: "CafeApi \<Rightarrow> string \<Rightarrow> (CafeState, unit) action" where
  "selectCafe cafeApi cafeId =
     then_a (patchState (\<lambda>s. s\<lparr>loading := True, error := None\<rparr>))
       (try_catch
          (bind_a (await_call (GetCafe cafeId) (api_getCafe cafeApi cafeId)) (\<lambda>cafe.
             patchState (\<lambda>s. s\<lparr>selectedCafe := Some cafe, loading := False\<rparr>)))
          (\<lambda>err. patchState (\<lambda>s. s\<lparr>error := Some (errorMessage err ''Failed to load cafe''),
                                        loading := False\<rparr>)))"

definition createCafe :: "CafeApi \<Rightarrow> jsval \<Rightarrow> (CafeState, string option) action" where
  "createCafe cafeApi request =
     then_a (patchState (\<lambda>s. s\<lparr>loading := True, error := None\<rparr>))
       (try_catch
          (bind_a (await_call (CreateCafe request) (api_createCafe cafeApi request)) (\<lambda>response.
           bind_a (await_call ListCafes (api_listCafes cafeApi)) (\<lambda>list.
           then_a (patchState (\<lambda>s. s\<lparr>cafes := response_cafes list, loading := False\<rparr>))
             (return_a (Some (response_cafeId response))))))
          (\<lambda>err. then_a
             (patchState (\<lambda>s. s\<lparr>error := Some (errorMessage err ''Failed to create cafe''),
                                  loading := False\<rparr>))
             (return_a None)))"

definition deleteCafe :: "CafeApi \<Rightarrow> string \<Rightarrow> (CafeState, bool) action" where
  "deleteCafe cafeApi cafeId =
     then_a (patchState (\<lambda>s. s\<lparr>loading := True, error := None\<rparr>))
       (try_catch
          (bind_a (await_call (DeleteCafe cafeId) (api_deleteCafe cafeApi cafeId)) (\<lambda>_.
           then_a (patchState (\<lambda>s. s\<lparr>
               cafes := filter (\<lambda>c. cafe_id c \<noteq> cafeId) (cafes s),
               selectedCafe := (if map_option cafe_id (selectedCafe s) = Some cafeId then None
                                else selectedCafe s),
               loading := False\<rparr>))
             (return_a True)))
          (\<lambda>err. then_a
             (patchState (\<lambda>s. s\<lparr>error := Some (errorMessage err ''Failed to delete cafe''),
                                  loading := False\<rparr>))
             (return_a False)))"

definition clearSelectedCafe :: "(CafeState, unit) action" where
  "clearSelectedCafe = patchState (\<lambda>s. s\<lparr>selectedCafe := None\<rparr>)"


subsection \<open>MenuStore\<close>

record MenuStoreState = StoreFlags +
  menus :: "MenuSummaryDto list"
  selectedMenu :: "MenuDto option"
  activeMenu :: "MenuDto option"
  currentCafeId :: "string option"

text \<open>The server's outcome for each request of \<^verbatim>\<open>MenuApiService\<close> that the store issues.\<close>

record MenuApi =
  api_listMenus :: "string \<Rightarrow> rejection + ListMenusResponse"
  api_getMenu :: "string \<Rightarrow> string \<Rightarrow> rejection + MenuDto"
  api_getActiveMenu :: "string \<Rightarrow> rejection + MenuDto"
  api_createMenu :: "string \<Rightarrow> jsval \<Rightarrow> rejection + CreateMenuResponse"
  api_updateMenu :: "string \<Rightarrow> string \<Rightarrow> jsval \<Rightarrow> rejection + unit"
  api_deleteMenu :: "string \<Rightarrow> string \<Rightarrow> rejection + unit"
  api_cloneMenu :: "string \<Rightarrow> string \<Rightarrow> string \<Rightarrow> rejection + CreateMenuResponse"
  api_publishMenu :: "string \<Rightarrow> string \<Rightarrow> rejection + unit"
  api_activateMenu :: "string \<Rightarrow> string \<Rightarrow> rejection + unit"

definition menu_initialState :: MenuStoreState where
  "menu_initialState =
     \<lparr> loading = False, error = None, menus = [], selectedMenu = None, activeMenu = None,
       currentCafeId = None \<rparr>"

definition menuCount :: "MenuStoreState \<Rightarrow> nat" where
  "menuCount s = length (menus s)"

definition hasMenus :: "MenuStoreState \<Rightarrow> bool" where
  "hasMenus s = (length (menus s) > 0)"

definition draftMenus :: "MenuStoreState \<Rightarrow> MenuSummaryDto list" where
  "draftMenus s = filter (\<lambda>m. summary_state m = Draft) (menus s)"

definition publishedMenus :: "MenuStoreState \<Rightarrow> MenuSummaryDto list" where
  "publishedMenus s = filter (\<lambda>m. summary_state m = Published) (menus s)"

definition activeMenus :: "MenuStoreState \<Rightarrow> MenuSummaryDto list" where
  "activeMenus s = filter (\<lambda>m. summary_state m = Active) (menus s)"

definition loadMenus :: "MenuApi \<Rightarrow> string \<Rightarrow> (MenuStoreState, unit) action" where
  "loadMenus menuApi cafeId =
     then_a (patchState (\<lambda>s. s\<lparr>loading := True, error := None, currentCafeId := Some cafeId\<rparr>))
       (try_catch
          (bind_a (await_call (ListMenus cafeId) (api_listMenus menuApi cafeId)) (\<lambda>response.
             patchState (\<lambda>s. s\<lparr>menus := response_menus response, loading := False\<rparr>)))
          (\<lambda>err. patchState (\<lambda>s. s\<lparr>error := Some (errorMessage err ''Failed to load menus''),
                                        loading := False\<rparr>)))"

definition selectMenu :: "MenuApi \<Rightarrow> string \<Rightarrow> string \<Rightarrow> (MenuStoreState, unit) action" where
  "selectMenu menuApi cafeId menuId =
     then_a (patchState (\<lambda>s. s\<lparr>loading := True, error := None\<rparr>))
       (try_catch
          (bind_a (await_call (GetMenu cafeId menuId) (api_getMenu menuApi cafeId menuId)) (\<lambda>menu.
             patchState (\<lambda>s. s\<lparr>selectedMenu := Some menu, loading := False\<rparr>)))
          (\<lambda>err. patchState (\<lambda>s. s\<lparr>error := Some (errorMessage err ''Failed to load menu''),
                                        loading := False\<rparr>)))"

definition loadMenu :: "MenuApi \<Rightarrow> string \<Rightarrow> string \<Rightarrow> (MenuStoreState, unit) action" where
  "loadMenu menuApi cafeId menuId = selectMenu menuApi cafeId menuId"

definition loadActiveMenu :: "MenuApi \<Rightarrow> string \<Rightarrow> (MenuStoreState, unit) action" where
  "loadActiveMenu menuApi cafeId =
     then_a (patchState (\<lambda>s. s\<lparr>loading := True, error := None\<rparr>))
       (try_catch
          (bind_a (await_call (GetActiveMenu cafeId) (api_getActiveMenu menuApi cafeId)) (\<lambda>menu.
             patchState (\<lambda>s. s\<lparr>activeMenu := Some menu, loading := False\<rparr>)))
          (\<lambda>err. patchState (\<lambda>s. s\<lparr>activeMenu := None, loading := False\<rparr>)))"

definition createMenu :: "MenuApi \<Rightarrow> string \<Rightarrow> jsval \<Rightarrow> (MenuStoreState, string option) action" where
  "createMenu menuApi cafeId request =
     then_a (patchState (\<lambda>s. s\<lparr>loading := True, error := None\<rparr>))
       (try_catch
          (bind_a (await_call (CreateMenu cafeId request) (api_createMenu menuApi cafeId request))
             (\<lambda>response.
           bind_a (await_call (ListMenus cafeId) (api_listMenus menuApi cafeId)) (\<lambda>listResponse.
           then_a (patchState (\<lambda>s. s\<lparr>menus := response_menus listResponse, loading := False\<rparr>))
             (return_a (Some (response_menuId response))))))
          (\<lambda>err. then_a
             (patchState (\<lambda>s. s\<lparr>error := Some (errorMessage err ''Failed to create menu''),
                                  loading := False\<rparr>))
             (return_a None)))"

definition updateMenu ::
  "MenuApi \<Rightarrow> string \<Rightarrow> string \<Rightarrow> jsval \<Rightarrow> (MenuStoreState, bool) action" where
  "updateMenu menuApi cafeId menuId request =
     then_a (patchState (\<lambda>s. s\<lparr>loading := True, error := None\<rparr>))
       (try_catch
          (bind_a (await_call (UpdateMenu cafeId menuId request)
                     (api_updateMenu menuApi cafeId menuId request)) (\<lambda>_.
           bind_a (await_all2 (GetMenu cafeId menuId) (api_getMenu menuApi cafeId menuId)
                     (ListMenus cafeId) (api_listMenus menuApi cafeId)) (\<lambda>(menu, listResponse).
           then_a (patchState (\<lambda>s. s\<lparr>selectedMenu := Some menu,
                                       menus := response_menus listResponse,
                                       loading := False\<rparr>))
             (return_a True))))
          (\<lambda>err. then_a
             (patchState (\<lambda>s. s\<lparr>error := Some (errorMessage err ''Failed to update menu''),
                                  loading := False\<rparr>))
             (return_a False)))"

definition deleteMenu :: "MenuApi \<Rightarrow> string \<Rightarrow> string \<Rightarrow> (MenuStoreState, bool) action" where
  "deleteMenu menuApi cafeId menuId =
     then_a (patchState (\<lambda>s. s\<lparr>loading := True, error := None\<rparr>))
       (try_catch
          (bind_a (await_call (DeleteMenu cafeId menuId) (api_deleteMenu menuApi cafeId menuId))
             (\<lambda>_.
           then_a (patchState (\<lambda>s. s\<lparr>
               menus := filter (\<lambda>m. summary_menuId m \<noteq> menuId) (menus s),
               selectedMenu := (if map_option menu_id (selectedMenu s) = Some menuId then None
                                else selectedMenu s),
               loading := False\<rparr>))
             (return_a True)))
          (\<lambda>err. then_a
             (patchState (\<lambda>s. s\<lparr>error := Some (errorMessage err ''Failed to delete menu''),
                                  loading := False\<rparr>))
             (return_a False)))"

definition cloneMenu ::
  "MenuApi \<Rightarrow> string \<Rightarrow> string \<Rightarrow> string \<Rightarrow> (MenuStoreState, string option) action" where
  "cloneMenu menuApi cafeId menuId newName =
     then_a (patchState (\<lambda>s. s\<lparr>loading := True, error := None\<rparr>))
       (try_catch
          (bind_a (await_call (CloneMenu cafeId menuId newName)
                     (api_cloneMenu menuApi cafeId menuId newName)) (\<lambda>response.
           bind_a (await_call (ListMenus cafeId) (api_listMenus menuApi cafeId)) (\<lambda>listResponse.
           then_a (patchState (\<lambda>s. s\<lparr>menus := response_menus listResponse, loading := False\<rparr>))
             (return_a (Some (response_menuId response))))))
          (\<lambda>err. then_a
             (patchState (\<lambda>s. s\<lparr>error := Some (errorMessage err ''Failed to clone menu''),
                                  loading := False\<rparr>))
             (return_a None)))"

definition publishMenu :: "MenuApi \<Rightarrow> string \<Rightarrow> string \<Rightarrow> (MenuStoreState, bool) action" where
  "publishMenu menuApi cafeId menuId =
     then_a (patchState (\<lambda>s. s\<lparr>loading := True, error := None\<rparr>))
       (try_catch
          (bind_a (await_call (PublishMenu cafeId menuId) (api_publishMenu menuApi cafeId menuId))
             (\<lambda>_.
           bind_a (await_all2 (GetMenu cafeId menuId) (api_getMenu menuApi cafeId menuId)
                     (ListMenus cafeId) (api_listMenus menuApi cafeId)) (\<lambda>(menu, listResponse).
           then_a (patchState (\<lambda>s. s\<lparr>selectedMenu := Some menu,
                                       menus := response_menus listResponse,
                                       loading := False\<rparr>))
             (return_a True))))
          (\<lambda>err. then_a
             (patchState (\<lambda>s. s\<lparr>error := Some (errorMessage err ''Failed to publish menu''),
                                  loading := False\<rparr>))
             (return_a False)))"

definition activateMenu :: "MenuApi \<Rightarrow> string \<Rightarrow> string \<Rightarrow> (MenuStoreState, bool) action" where
  "activateMenu menuApi cafeId menuId =
     then_a (patchState (\<lambda>s. s\<lparr>loading := True, error := None\<rparr>))
       (try_catch
          (bind_a (await_call (ActivateMenu cafeId menuId)
                     (api_activateMenu menuApi cafeId menuId)) (\<lambda>_.
           bind_a (await_all3 (GetMenu cafeId menuId) (api_getMenu menuApi cafeId menuId)
                     (GetActiveMenu cafeId) (api_getActiveMenu menuApi cafeId)
                     (ListMenus cafeId) (api_listMenus menuApi cafeId))
             (\<lambda>(menu, activeMenu', listResponse).
           then_a (patchState (\<lambda>s. s\<lparr>selectedMenu := Some menu,
                                       activeMenu := Some activeMenu',
                                       menus := response_menus listResponse,
                                       loading := False\<rparr>))
             (return_a True))))
          (\<lambda>err. then_a
             (patchState (\<lambda>s. s\<lparr>error := Some (errorMessage err ''Failed to activate menu''),
                                  loading := False\<rparr>))
             (return_a False)))"

definition clearSelectedMenu :: "(MenuStoreState, unit) action" where
  "clearSelectedMenu = patchState (\<lambda>s. s\<lparr>selectedMenu := None\<rparr>)"

definition clearMenus :: "(MenuStoreState, unit) action" where
  "clearMenus = patchState (\<lambda>_. menu_initialState)"


section \<open>Reactive forms\<close>

text \<open>
  The part of Angular's reactive forms that the application uses. A control is a leaf
  (\<^verbatim>\<open>FormControl\<close>, with its value), a \<^verbatim>\<open>FormGroup\<close> (named children, in the order of
  \<^verbatim>\<open>Object.values(controls)\<close>) or a \<^verbatim>\<open>FormArray\<close>; each carries its \<^verbatim>\<open>errors\<close> (\<^verbatim>\<open>null\<close> is
  \<open>None\<close>; otherwise an object, given by its own properties in order) and its \<^verbatim>\<open>touched\<close> flag.
  The application never disables a control and uses no asynchronous validator, so a
  control's status is \<^verbatim>\<open>VALID\<close> or \<^verbatim>\<open>INVALID\<close>.
\<close>

type_synonym ValidationErrors = "(string \<times> jsval) list"

datatype ctrl =
    FormControl jsval "ValidationErrors option" bool
  | FormGroup "(string \<times> ctrl) list" "ValidationErrors option" bool
  | FormArray "ctrl list" "ValidationErrors option" bool

fun ctrl_errors :: "ctrl \<Rightarrow> ValidationErrors option" where
  "ctrl_errors (FormControl v e t) = e"
| "ctrl_errors (FormGroup kids e t) = e"
| "ctrl_errors (FormArray kids e t) = e"

fun ctrl_touched :: "ctrl \<Rightarrow> bool" where
  "ctrl_touched (FormControl v e t) = t"
| "ctrl_touched (FormGroup kids e t) = t"
| "ctrl_touched (FormArray kids e t) = t"

text \<open>\<^verbatim>\<open>control.value\<close>: the object of the children's values for a group, their array for an array.\<close>

fun form_value :: "ctrl \<Rightarrow> jsval" where
  "form_value (FormControl v e t) = v"
| "form_value (FormGroup kids e t) = JObj (map (\<lambda>kc. (fst kc, form_value (snd kc))) kids)"
| "form_value (FormArray kids e t) = JArr (map form_value kids)"

text \<open>
  \<^verbatim>\<open>control.invalid\<close>, the status Angular keeps up to date: a control is invalid when it has
  errors of its own or one of its children is invalid.
\<close>

fun invalid :: "ctrl \<Rightarrow> bool" where
  "invalid (FormControl v e t) = (e \<noteq> None)"
| "invalid (FormGroup kids e t) = (e \<noteq> None \<or> list_ex (\<lambda>kc. invalid (snd kc)) kids)"
| "invalid (FormArray kids e t) = (e \<noteq> None \<or> list_ex invalid kids)"

text \<open>\<^verbatim>\<open>control.markAllAsTouched()\<close> marks the control and all its descendants.\<close>

fun markAllAsTouched :: "ctrl \<Rightarrow> ctrl" where
  "markAllAsTouched (FormControl v e t) = FormControl v e True"
| "markAllAsTouched (FormGroup kids e t) =
     FormGroup (map (\<lambda>kc. (fst kc, markAllAsTouched (snd kc))) kids) e True"
| "markAllAsTouched (FormArray kids e t) = FormArray (map markAllAsTouched kids) e True"

text \<open>Every control of the tree is marked touched.\<close>

fun all_touched :: "ctrl \<Rightarrow> bool" where
  "all_touched (FormControl v e t) = t"
| "all_touched (FormGroup kids e t) = (t \<and> list_all (\<lambda>kc. all_touched (snd kc)) kids)"
| "all_touched (FormArray kids e t) = (t \<and> list_all all_touched kids)"


section \<open>Form error mapper\<close>

text \<open>
  \<^verbatim>\<open>FormErrorMapperService\<close>. Strings are sequences of code units below 256. A validation error
  of the server has a message, an optional code and an optional field path.
\<close>

record ValidationError =
  message :: string
  code :: "string option"
  field :: "string option"

text \<open>The class \<^verbatim>\<open>\d\<close> of a regular expression: the ten ASCII digits.\<close>

definition is_digit :: "char \<Rightarrow> bool" where
  "is_digit c = (48 \<le> (of_char c :: nat) \<and> (of_char c :: nat) \<le> 57)"

text \<open>The number that a string of digits denotes in base ten.\<close>

definition digits_value :: "string \<Rightarrow> nat" where
  "digits_value ds = foldl (\<lambda>n c. 10 * n + ((of_char c :: nat) - 48)) 0 ds"

text \<open>
  \<^verbatim>\<open>toLowerCase()\<close> on one character: the letters A to Z and the capital letters of Latin-1
  (192 to 222 except 215) move up by 32, which sets one bit; every other character stays.
\<close>

fun toLowerCase_char :: "char \<Rightarrow> char" where
  "toLowerCase_char (Char b0 b1 b2 b3 b4 b5 b6 b7) =
     (let n = (of_char (Char b0 b1 b2 b3 b4 b5 b6 b7) :: nat)
      in if (65 \<le> n \<and> n \<le> 90) \<or> (192 \<le> n \<and> n \<le> 222 \<and> n \<noteq> 215)
         then Char b0 b1 b2 b3 b4 True b6 b7
         else Char b0 b1 b2 b3 b4 b5 b6 b7)"

text \<open>
  \<^verbatim>\<open>backendField.replace(/\[(\d+)\]/g, '.$1')\<close>: scanning from the left, an opening bracket
  followed by one or more digits and a closing bracket becomes a dot followed by the digits.
\<close>

function replace_brackets :: "string \<Rightarrow> string" where
  "replace_brackets [] = []"
| "replace_brackets (c # cs) =
     (if c = CHR ''['' \<and> takeWhile is_digit cs \<noteq> []
         \<and> dropWhile is_digit cs \<noteq> [] \<and> hd (dropWhile is_digit cs) = CHR '']''
      then CHR ''.'' # takeWhile is_digit cs @ replace_brackets (tl (dropWhile is_digit cs))
      else c # replace_brackets cs)"
  by pat_completeness auto
termination
proof (relation "measure length")
  show "wf (measure length)" by simp
next
  fix c :: char and cs :: string
  assume "c = CHR ''['' \<and> takeWhile is_digit cs \<noteq> []
         \<and> dropWhile is_digit cs \<noteq> [] \<and> hd (dropWhile is_digit cs) = CHR '']''"
  have "length (tl (dropWhile is_digit cs)) \<le> length (dropWhile is_digit cs)" by simp
  also have "\<dots> \<le> length cs" by (rule length_dropWhile_le)
  finally show "(tl (dropWhile is_digit cs), c # cs) \<in> measure length" by simp
next
  fix c :: char and cs :: string
  show "(cs, c # cs) \<in> measure length" by simp
qed

text \<open>
  \<^verbatim>\<open>toFormFieldName\<close>: the empty string for an empty field; otherwise the brackets are replaced and
  \<^verbatim>\<open>withDotNotation.charAt(0).toLowerCase() + withDotNotation.slice(1)\<close> is returned.
\<close>

definition toFormFieldName :: "string \<Rightarrow> string" where
  "toFormFieldName backendField =
     (if backendField = [] then []
      else (let withDotNotation = replace_brackets backendField
            in case withDotNotation of
                 [] \<Rightarrow> []
               | c # rest \<Rightarrow> toLowerCase_char c # rest))"

text \<open>\<^verbatim>\<open>path.split('.')\<close>: never empty; the empty string gives one empty segment.\<close>

fun split_dot :: "string \<Rightarrow> string list" where
  "split_dot [] = [[]]"
| "split_dot (c # cs) =
     (if c = CHR ''.'' then [] # split_dot cs
      else (case split_dot cs of
              [] \<Rightarrow> [[c]]
            | p # ps \<Rightarrow> (c # p) # ps))"

text \<open>The white space that \<^verbatim>\<open>parseInt\<close> skips, among the code units below 256.\<close>

definition is_space :: "char \<Rightarrow> bool" where
  "is_space c = ((of_char c :: nat) \<in> {9, 10, 11, 12, 13, 32, 160})"

text \<open>
  \<^verbatim>\<open>parseInt(part, 10)\<close>: leading white space is skipped, a sign is read, then the longest run
  of digits; \<open>None\<close> is \<^verbatim>\<open>NaN\<close> (no digit there).
\<close>

definition parseInt :: "string \<Rightarrow> int option" where
  "parseInt s =
     (let t = dropWhile is_space s;
          neg = (t \<noteq> [] \<and> hd t = CHR ''-'');
          u = (if t \<noteq> [] \<and> (hd t = CHR ''-'' \<or> hd t = CHR ''+'') then tl t else t);
          ds = takeWhile is_digit u
      in if ds = [] then None
         else Some (if neg then - int (digits_value ds) else int (digits_value ds)))"

text \<open>
  \<^verbatim>\<open>FormArray.at(index)\<close>: a negative index counts from the end; the result is the position of
  the control, or \<open>None\<close> where \<^verbatim>\<open>at\<close> returns \<^verbatim>\<open>undefined\<close> (\<^verbatim>\<open>NaN\<close> or out of range).
\<close>

definition array_at :: "'a list \<Rightarrow> int option \<Rightarrow> nat option" where
  "array_at xs index =
     (case index of
        None \<Rightarrow> None
      | Some i \<Rightarrow>
          (let j = (if i < 0 then i + int (length xs) else i)
           in if 0 \<le> j \<and> j < int (length xs) then Some (nat j) else None))"

text \<open>\<^verbatim>\<open>FormGroup.get(part)\<close> for a name without a dot: the child that is an own property \<open>part\<close>.\<close>

fun key_position :: "(string \<times> 'a) list \<Rightarrow> string \<Rightarrow> nat option" where
  "key_position [] k = None"
| "key_position (kc # kids) k =
     (if fst kc = k then Some 0 else map_option Suc (key_position kids k))"

text \<open>
  The loop of \<^verbatim>\<open>getControl\<close> over the segments. A control is identified by its address: the
  positions of the children on the way from the form down to it. \<open>None\<close> stands for the
  falsy results (\<^verbatim>\<open>null\<close> and \<^verbatim>\<open>undefined\<close>): a child that is missing, an index out of range,
  or a leaf reached with segments left.
\<close>

fun walk :: "ctrl \<Rightarrow> string list \<Rightarrow> nat list option" where
  "walk control [] = Some []"
| "walk control (part # parts) =
     (case control of
        FormGroup kids e t \<Rightarrow>
          (case key_position kids part of
             None \<Rightarrow> None
           | Some i \<Rightarrow> map_option (Cons i) (walk (snd (kids ! i)) parts))
      | FormArray kids e t \<Rightarrow>
          (case array_at kids (parseInt part) of
             None \<Rightarrow> None
           | Some i \<Rightarrow> map_option (Cons i) (walk (kids ! i) parts))
      | FormControl v e t \<Rightarrow> None)"

definition getControl :: "ctrl \<Rightarrow> string \<Rightarrow> nat list option" where
  "getControl form path = walk form (split_dot path)"

text \<open>The control at an address.\<close>

fun control_at :: "ctrl \<Rightarrow> nat list \<Rightarrow> ctrl option" where
  "control_at c [] = Some c"
| "control_at c (i # rest) =
     (case c of
        FormGroup kids e t \<Rightarrow> (if i < length kids then control_at (snd (kids ! i)) rest else None)
      | FormArray kids e t \<Rightarrow> (if i < length kids then control_at (kids ! i) rest else None)
      | FormControl v e t \<Rightarrow> None)"

text \<open>\<^verbatim>\<open>control.setErrors(errs)\<close> replaces the errors of that control.\<close>

fun setErrors :: "ValidationErrors option \<Rightarrow> ctrl \<Rightarrow> ctrl" where
  "setErrors errs (FormControl v e t) = FormControl v errs t"
| "setErrors errs (FormGroup kids e t) = FormGroup kids errs t"
| "setErrors errs (FormArray kids e t) = FormArray kids errs t"

text \<open>The touched flag of one control is set.\<close>

fun set_touched :: "ctrl \<Rightarrow> ctrl" where
  "set_touched (FormControl v e t) = FormControl v e True"
| "set_touched (FormGroup kids e t) = FormGroup kids e True"
| "set_touched (FormArray kids e t) = FormArray kids e True"

text \<open>\<^verbatim>\<open>setErrors\<close> on the control at an address.\<close>

fun setErrors_at :: "nat list \<Rightarrow> ValidationErrors option \<Rightarrow> ctrl \<Rightarrow> ctrl" where
  "setErrors_at [] errs c = setErrors errs c"
| "setErrors_at (i # rest) errs c =
     (case c of
        FormGroup kids e t \<Rightarrow>
          (if i < length kids
           then FormGroup (kids[i := (fst (kids ! i), setErrors_at rest errs (snd (kids ! i)))]) e t
           else c)
      | FormArray kids e t \<Rightarrow>
          (if i < length kids
           then FormArray (kids[i := setErrors_at rest errs (kids ! i)]) e t
           else c)
      | FormControl v e t \<Rightarrow> c)"

text \<open>
  \<^verbatim>\<open>control.markAsTouched()\<close> marks the control and its ancestors: every control on the way
  from the form down to the address.
\<close>

fun markAsTouched_at :: "nat list \<Rightarrow> ctrl \<Rightarrow> ctrl" where
  "markAsTouched_at [] c = set_touched c"
| "markAsTouched_at (i # rest) c =
     (case c of
        FormGroup kids e t \<Rightarrow>
          (if i < length kids
           then FormGroup (kids[i := (fst (kids ! i), markAsTouched_at rest (snd (kids ! i)))]) e True
           else c)
      | FormArray kids e t \<Rightarrow>
          (if i < length kids
           then FormArray (kids[i := markAsTouched_at rest (kids ! i)]) e True
           else c)
      | FormControl v e t \<Rightarrow> c)"

text \<open>The test \<^verbatim>\<open>errors?.['backend']\<close>: the entry is there and truthy.\<close>

definition has_backend :: "ValidationErrors option \<Rightarrow> bool" where
  "has_backend errs =
     (case errs of
        None \<Rightarrow> False
      | Some kvs \<Rightarrow> (case map_of kvs ''backend'' of None \<Rightarrow> False | Some v \<Rightarrow> truthy v))"

text \<open>
  What \<^verbatim>\<open>clearFormErrors\<close> does to the errors of one control: when the test above holds it
  deletes the key \<^verbatim>\<open>backend\<close> and sets the remaining object, or \<^verbatim>\<open>null\<close> when no key remains.
\<close>

definition without_backend :: "ValidationErrors option \<Rightarrow> ValidationErrors option" where
  "without_backend errs =
     (if has_backend errs
      then (let remaining = filter (\<lambda>kv. fst kv \<noteq> ''backend'') (the errs)
            in if length remaining > 0 then Some remaining else None)
      else errs)"

text \<open>
  \<^verbatim>\<open>clearFormErrors\<close>: the errors of the form itself, then each child; a group or an array
  child by the recursive call, a leaf child by the \<^verbatim>\<open>else if\<close> branch.
\<close>

fun clearFormErrors :: "ctrl \<Rightarrow> ctrl" where
  "clearFormErrors (FormControl v e t) = FormControl v (without_backend e) t"
| "clearFormErrors (FormGroup kids e t) =
     FormGroup (map (\<lambda>kc. (fst kc, clearFormErrors (snd kc))) kids) (without_backend e) t"
| "clearFormErrors (FormArray kids e t) =
     FormArray (map clearFormErrors kids) (without_backend e) t"

text \<open>
  \<^verbatim>\<open>groupErrorsByField\<close> reduces the errors into an object that starts as \<^verbatim>\<open>{}\<close>, which
  inherits the properties of \<^verbatim>\<open>Object.prototype\<close>. For a field that is not yet an own property,
  \<^verbatim>\<open>acc[error.field]\<close> is \<^verbatim>\<open>undefined\<close> and an array is created, except when the field is the name
  of an inherited property: then the value read is truthy, no array is created, and
  \<^verbatim>\<open>acc[error.field].push(error)\<close> throws a \<^verbatim>\<open>TypeError\<close>.
\<close>

definition object_prototype_keys :: "string list" where
  "object_prototype_keys =
     [''constructor'', ''__defineGetter__'', ''__defineSetter__'', ''hasOwnProperty'',
      ''__lookupGetter__'', ''__lookupSetter__'', ''isPrototypeOf'', ''propertyIsEnumerable'',
      ''toString'', ''valueOf'', ''__proto__'', ''toLocaleString'']"

definition group_step ::
  "(string \<times> ValidationError list) list \<Rightarrow> ValidationError
     \<Rightarrow> rejection + (string \<times> ValidationError list) list" where
  "group_step acc err =
     (case field err of
        None \<Rightarrow> Inr acc
      | Some f \<Rightarrow>
          (if f = [] then Inr acc
           else (case map_of acc f of
                   Some es \<Rightarrow> Inr (map (\<lambda>kv. if fst kv = f then (f, snd kv @ [err]) else kv) acc)
                 | None \<Rightarrow>
                     (if f \<in> set object_prototype_keys
                      then Inl (ErrorInstance ''acc[error.field].push is not a function'')
                      else Inr (acc @ [(f, [err])])))))"

fun reduce_errors ::
  "(string \<times> ValidationError list) list \<Rightarrow> ValidationError list
     \<Rightarrow> rejection + (string \<times> ValidationError list) list" where
  "reduce_errors acc [] = Inr acc"
| "reduce_errors acc (err # errs) =
     (case group_step acc err of
        Inl ex \<Rightarrow> Inl ex
      | Inr acc' \<Rightarrow> reduce_errors acc' errs)"

definition groupErrorsByField ::
  "ValidationError list \<Rightarrow> rejection + (string \<times> ValidationError list) list" where
  "groupErrorsByField errors = reduce_errors [] errors"

text \<open>
  \<^verbatim>\<open>Object.entries\<close> lists the keys that are array indices (canonical decimal numbers below
  \<open>2^32 - 1\<close>) first, in ascending order, then the other keys in the order of their creation.
\<close>

definition is_array_index :: "string \<Rightarrow> bool" where
  "is_array_index k =
     (k \<noteq> [] \<and> list_all is_digit k \<and> (k = ''0'' \<or> hd k \<noteq> CHR ''0'')
      \<and> digits_value k < 4294967295)"

definition object_entries :: "(string \<times> 'a) list \<Rightarrow> (string \<times> 'a) list" where
  "object_entries kvs =
     sort_key (\<lambda>kv. digits_value (fst kv)) (filter (\<lambda>kv. is_array_index (fst kv)) kvs)
     @ filter (\<lambda>kv. \<not> is_array_index (fst kv)) kvs"

text \<open>\<^verbatim>\<open>errorMessages.length === 1 ? errorMessages[0] : errorMessages\<close>\<close>

definition backend_value :: "string list \<Rightarrow> jsval" where
  "backend_value errorMessages =
     (if length errorMessages = 1 then JStr (hd errorMessages) else JArr (map JStr errorMessages))"

text \<open>The body of the loop of \<^verbatim>\<open>applyToForm\<close> for one entry \<^verbatim>\<open>[backendField, fieldErrors]\<close>.\<close>

definition apply_field :: "ctrl \<Rightarrow> string \<times> ValidationError list \<Rightarrow> ctrl" where
  "apply_field form entry =
     (let formField = toFormFieldName (fst entry)
      in case getControl form formField of
           None \<Rightarrow> form
         | Some control \<Rightarrow>
             markAsTouched_at control
               (setErrors_at control (Some [(''backend'', backend_value (map message (snd entry)))])
                  form))"

text \<open>\<^verbatim>\<open>!e.field\<close>: no field, or the empty string.\<close>

definition is_general :: "ValidationError \<Rightarrow> bool" where
  "is_general e = (case field e of None \<Rightarrow> True | Some f \<Rightarrow> f = [])"

text \<open>
  \<^verbatim>\<open>applyToForm\<close> returns the outcome (a thrown error or nothing) and the form as it has
  become.
\<close>

definition applyToForm :: "ctrl \<Rightarrow> ValidationError list \<Rightarrow> (rejection + unit) \<times> ctrl" where
  "applyToForm form errors =
     (let form1 = clearFormErrors form
      in case groupErrorsByField errors of
           Inl ex \<Rightarrow> (Inl ex, form1)
         | Inr errorsByField \<Rightarrow>
             (let form2 = foldl apply_field form1 (object_entries errorsByField);
                  generalErrors = filter is_general errors
              in if length generalErrors > 0
                 then (Inr (), setErrors (Some [(''backend'', JArr (map (JStr \<circ> message) generalErrors))])
                                 form2)
                 else (Inr (), form2)))"

text \<open>
  The form tree without its values, errors and flags: the names and positions of the
  controls, which is all that \<^verbatim>\<open>getControl\<close> reads.
\<close>

fun shape :: "ctrl \<Rightarrow> ctrl" where
  "shape (FormControl v e t) = FormControl JNull None False"
| "shape (FormGroup kids e t) = FormGroup (map (\<lambda>kc. (fst kc, shape (snd kc))) kids) None False"
| "shape (FormArray kids e t) = FormArray (map shape kids) None False"

text \<open>The entries of a dictionary under the keys other than \<open>f\<close>.\<close>

definition other_groups :: "string \<Rightarrow> (string \<times> 'a) list \<Rightarrow> (string \<times> 'a) list" where
  "other_groups f acc = filter (\<lambda>kv. fst kv \<noteq> f) acc"

text \<open>The error entries of a control other than the mapper's.\<close>

definition other_entries :: "ValidationErrors option \<Rightarrow> ValidationErrors" where
  "other_entries errs =
     filter (\<lambda>kv. fst kv \<noteq> ''backend'') (case errs of None \<Rightarrow> [] | Some kvs \<Rightarrow> kvs)"

text \<open>\<^verbatim>\<open>control.errors?.[key]\<close>\<close>

definition error_entry :: "ctrl \<Rightarrow> string \<Rightarrow> jsval option" where
  "error_entry c key = (case ctrl_errors c of None \<Rightarrow> None | Some kvs \<Rightarrow> map_of kvs key)"


section \<open>Form submission\<close>

text \<open>\<^verbatim>\<open>control.valid\<close>\<close>

definition valid :: "ctrl \<Rightarrow> bool" where
  "valid c = (\<not> invalid c)"

text \<open>
  The payload that \<^verbatim>\<open>MenuFormPageComponent.onSubmit\<close> builds from \<^verbatim>\<open>menuForm.value\<close>. The form
  this component builds has arrays at \<^verbatim>\<open>sections\<close>, \<^verbatim>\<open>items\<close> and \<^verbatim>\<open>ingredients\<close> and groups inside
  them, so \<^verbatim>\<open>.map\<close> meets arrays and properties are read from objects.
\<close>

definition js_map :: "(jsval \<Rightarrow> jsval) \<Rightarrow> jsval \<Rightarrow> jsval" where
  "js_map f v = (case v of JArr xs \<Rightarrow> JArr (map f xs) | _ \<Rightarrow> JUndefined)"

definition ingredient_data :: "jsval \<Rightarrow> jsval" where
  "ingredient_data ing =
     JObj [(''name'', js_get ing ''name''), (''isExcludable'', js_get ing ''isExcludable'')]"

definition item_data :: "jsval \<Rightarrow> jsval" where
  "item_data item =
     JObj [(''name'', js_get item ''name''),
           (''description'', js_or (js_get item ''description'') JNull),
           (''price'', JObj [(''amount'', js_get item ''priceAmount''),
                            (''currency'', js_get item ''priceCurrency''),
                            (''unit'', js_get item ''priceUnit''),
                            (''discount'', js_or (js_get item ''priceDiscount'') (JNum 0))]),
           (''image'', JNull),
           (''ingredients'', js_map ingredient_data (js_get item ''ingredients''))]"

definition section_data :: "jsval \<Rightarrow> jsval" where
  "section_data section' =
     JObj [(''name'', js_get section' ''name''),
           (''availableFrom'', js_or (js_get section' ''availableFrom'') JNull),
           (''availableTo'', js_or (js_get section' ''availableTo'') JNull),
           (''items'', js_map item_data (js_get section' ''items''))]"

definition menuData :: "jsval \<Rightarrow> jsval" where
  "menuData formValue =
     JObj [(''name'', js_get formValue ''name''),
           (''sections'', js_map section_data (js_get formValue ''sections''))]"

text \<open>
  The state of \<^verbatim>\<open>MenuFormPageComponent\<close> that \<^verbatim>\<open>onSubmit\<close> reads and writes, with the
  navigations it has asked of the router.
\<close>

record MenuFormPage =
  menuForm :: ctrl
  isSubmitting :: bool
  page_cafeId :: "string option"
  page_menuId :: "string option"
  page_navigations :: "string list list"

text \<open>\<^verbatim>\<open>computed(() => !!this.menuId())\<close>\<close>

definition isEditMode :: "MenuFormPage \<Rightarrow> bool" where
  "isEditMode page = (case page_menuId page of None \<Rightarrow> False | Some menuId \<Rightarrow> menuId \<noteq> [])"

text \<open>
  The end of \<^verbatim>\<open>onSubmit\<close> once the store method has settled: navigate when the store holds no
  error, and reset \<^verbatim>\<open>isSubmitting\<close> in the \<^verbatim>\<open>finally\<close> block.
\<close>

definition after_save ::
  "MenuFormPage \<Rightarrow> string \<Rightarrow> (rejection + 'a) \<times> (MenuStoreState \<times> api_call list)
     \<Rightarrow> (rejection + unit) \<times> MenuFormPage \<times> MenuStoreState \<times> api_call list" where
  "after_save page cafeId saved =
     (case saved of
        (Inl ex, (store', calls)) \<Rightarrow> (Inl ex, page\<lparr>isSubmitting := False\<rparr>, store', calls)
      | (Inr _, (store', calls)) \<Rightarrow>
          (Inr (),
           (if error store' = None \<or> error store' = Some []
            then page\<lparr>isSubmitting := False,
                      page_navigations := page_navigations page @ [[''/cafes'', cafeId, ''menus'']]\<rparr>
            else page\<lparr>isSubmitting := False\<rparr>),
           store', calls))"

text \<open>\<^verbatim>\<open>MenuFormPageComponent.onSubmit\<close>\<close>

definition MenuFormPage_onSubmit ::
  "MenuApi \<Rightarrow> MenuFormPage \<Rightarrow> MenuStoreState
     \<Rightarrow> (rejection + unit) \<times> MenuFormPage \<times> MenuStoreState \<times> api_call list" where
  "MenuFormPage_onSubmit menuApi page store =
     (if invalid (menuForm page) \<or> isSubmitting page
      then (Inr (), page\<lparr>menuForm := markAllAsTouched (menuForm page)\<rparr>, store, [])
      else (case page_cafeId page of
              None \<Rightarrow> (Inr (), page, store, [])
            | Some cafeId \<Rightarrow>
                (if cafeId = [] then (Inr (), page, store, [])
                 else (let formValue = form_value (menuForm page)
                       in if isEditMode page
                          then (case page_menuId page of
                                  None \<Rightarrow> (Inr (), page\<lparr>isSubmitting := False\<rparr>, store, [])
                                | Some menuId \<Rightarrow>
                                    (if menuId = []
                                     then (Inr (), page\<lparr>isSubmitting := False\<rparr>, store, [])
                                     else after_save page cafeId
                                            (run (updateMenu menuApi cafeId menuId (menuData formValue))
                                               store)))
                          else after_save page cafeId
                                 (run (createMenu menuApi cafeId (menuData formValue)) store)))))"

text \<open>
  \<^verbatim>\<open>CafeFormDialogComponent\<close>: its form and the values the dialog was closed with.
\<close>

record CafeFormDialog =
  cafeForm :: ctrl
  dialog_closed :: "string list"

text \<open>\<^verbatim>\<open>CafeFormDialogComponent.onSubmit\<close>\<close>

definition CafeFormDialog_onSubmit ::
  "CafeApi \<Rightarrow> CafeFormDialog \<Rightarrow> CafeState
     \<Rightarrow> (rejection + unit) \<times> CafeFormDialog \<times> CafeState \<times> api_call list" where
  "CafeFormDialog_onSubmit cafeApi dialog store =
     (if valid (cafeForm dialog)
      then (let formValue = form_value (cafeForm dialog)
            in if \<not> truthy (js_get formValue ''name'') then (Inr (), dialog, store, [])
               else (case run (createCafe cafeApi
                                 (JObj [(''name'', js_get formValue ''name''),
                                        (''contactInfo'',
                                           js_or (js_get formValue ''contactInfo'') JNull)]))
                            store of
                       (Inl ex, (store', calls)) \<Rightarrow> (Inl ex, dialog, store', calls)
                     | (Inr result, (store', calls)) \<Rightarrow>
                         (case result of
                            None \<Rightarrow> (Inr (), dialog, store', calls)
                          | Some cafeId \<Rightarrow>
                              (if cafeId = [] then (Inr (), dialog, store', calls)
                               else (Inr (),
                                     dialog\<lparr>dialog_closed := dialog_closed dialog @ [cafeId]\<rparr>,
                                     store', calls)))))
      else (Inr (), dialog, store, []))"


section \<open>Example data\<close>

text \<open>Concrete stores and server behaviours, used to run the statements below.\<close>

definition ex_menu :: "string \<Rightarrow> MenuState \<Rightarrow> MenuSummaryDto" where
  "ex_menu i st = \<lparr> summary_menuId = i, summary_name = ''Menu '' @ i, summary_state = st,
     summary_createdAt = ''2024-01-01'', summary_updatedAt = ''2024-01-02'' \<rparr>"

definition ex_full_menu :: "string \<Rightarrow> MenuState \<Rightarrow> MenuDto" where
  "ex_full_menu i st = \<lparr> menu_id = i, menu_name = ''Menu '' @ i, menu_state = st,
     menu_sections = JArr [], menu_createdAt = ''2024-01-01'', menu_updatedAt = ''2024-01-02'' \<rparr>"

definition ex_menu_store :: MenuStoreState where
  "ex_menu_store = \<lparr> loading = False, error = None,
     menus = [ex_menu ''m1'' Active, ex_menu ''m2'' Published],
     selectedMenu = Some (ex_full_menu ''m1'' Active), activeMenu = Some (ex_full_menu ''m1'' Active),
     currentCafeId = Some ''c1'' \<rparr>"

definition ex_menu_api :: MenuApi where
  "ex_menu_api = \<lparr>
     api_listMenus = (\<lambda>_. Inr \<lparr> response_menus = [ex_menu ''m1'' Published, ex_menu ''m2'' Active] \<rparr>),
     api_getMenu = (\<lambda>_ i. Inr (ex_full_menu i Active)),
     api_getActiveMenu = (\<lambda>_. Inr (ex_full_menu ''m2'' Active)),
     api_createMenu = (\<lambda>_ _. Inr \<lparr> response_menuId = ''m3'' \<rparr>),
     api_updateMenu = (\<lambda>_ _ _. Inr ()),
     api_deleteMenu = (\<lambda>_ _. Inr ()),
     api_cloneMenu = (\<lambda>_ _ _. Inr \<lparr> response_menuId = ''m4'' \<rparr>),
     api_publishMenu = (\<lambda>_ _. Inr ()),
     api_activateMenu = (\<lambda>_ _. Inr ()) \<rparr>"

definition ex_cafe :: "string \<Rightarrow> CafeDto" where
  "ex_cafe i = \<lparr> cafe_id = i, cafe_name = ''Cafe '' @ i, cafe_contactInfo = None,
     cafe_createdAt = ''2024-01-01'', cafe_updatedAt = None \<rparr>"

definition ex_cafe_store :: CafeState where
  "ex_cafe_store = \<lparr> loading = False, error = None,
     cafes = [ex_cafe ''c1'', ex_cafe ''c2''], selectedCafe = Some (ex_cafe ''c1'') \<rparr>"

definition ex_cafe_api :: CafeApi where
  "ex_cafe_api = \<lparr>
     api_listCafes = Inr \<lparr> response_cafes = [ex_cafe ''c2'', ex_cafe ''c3''] \<rparr>,
     api_getCafe = (\<lambda>i. Inr (ex_cafe i)),
     api_createCafe = (\<lambda>_. Inr \<lparr> response_cafeId = ''c3'' \<rparr>),
     api_deleteCafe = (\<lambda>_. Inr ()) \<rparr>"

definition ex_failing_cafe_api :: CafeApi where
  "ex_failing_cafe_api = \<lparr>
     api_listCafes = Inl (ErrorInstance ''API Error''),
     api_getCafe = (\<lambda>_. Inl OtherRejection),
     api_createCafe = (\<lambda>_. Inr \<lparr> response_cafeId = ''c3'' \<rparr>),
     api_deleteCafe = (\<lambda>_. Inl (ErrorInstance ''Deletion failed'')) \<rparr>"

definition ex_failing_menu_api :: MenuApi where
  "ex_failing_menu_api = \<lparr>
     api_listMenus = (\<lambda>_. Inl (ErrorInstance ''API Error'')),
     api_getMenu = (\<lambda>_ _. Inl OtherRejection),
     api_getActiveMenu = (\<lambda>_. Inl OtherRejection),
     api_createMenu = (\<lambda>_ _. Inr \<lparr> response_menuId = ''m3'' \<rparr>),
     api_updateMenu = (\<lambda>_ _ _. Inr ()),
     api_deleteMenu = (\<lambda>_ _. Inl OtherRejection),
     api_cloneMenu = (\<lambda>_ _ _. Inl OtherRejection),
     api_publishMenu = (\<lambda>_ _. Inr ()),
     api_activateMenu = (\<lambda>_ _. Inr ()) \<rparr>"

definition ex_section :: ctrl where
  "ex_section = FormGroup
     [(''name'', FormControl (JStr '''') (Some [(''required'', JBool True)]) False),
      (''availableFrom'', FormControl (JStr '''') None False),
      (''availableTo'', FormControl (JStr '''') None False),
      (''items'', FormArray [] None False)] None False"

definition ex_menu_form :: ctrl where
  "ex_menu_form = FormGroup
     [(''name'', FormControl (JStr ''Lunch'') None False),
      (''sections'', FormArray [ex_section] None False)] None False"

definition ex_name_control :: ctrl where
  "ex_name_control =
     FormControl (JStr '''') (Some [(''required'', JBool True), (''backend'', JStr ''Name is taken'')])
       True"

definition ex_mapped_form :: ctrl where
  "ex_mapped_form = FormGroup
     [(''name'', ex_name_control),
      (''sections'', FormArray [ex_section] (Some [(''backend'', JArr [JStr ''too many'', JStr ''x''])])
         False)]
     (Some [(''backend'', JArr [JStr ''general'']), (''atLeastOne'', JBool True)]) False"

definition ex_cafe_form :: ctrl where
  "ex_cafe_form = FormGroup
     [(''name'', FormControl (JStr '''') (Some [(''required'', JBool True)]) False),
      (''contactInfo'', FormControl (JStr '''') None False)] None False"

definition ex_cafe_dialog :: CafeFormDialog where
  "ex_cafe_dialog = \<lparr> cafeForm = ex_cafe_form, dialog_closed = [] \<rparr>"

definition ex_menu_page :: MenuFormPage where
  "ex_menu_page = \<lparr> menuForm = ex_menu_form, isSubmitting = False, page_cafeId = Some ''c1'',
     page_menuId = None, page_navigations = [] \<rparr>"

section \<open>Properties\<close>

subsection \<open>Stores\<close>

lemmas action_defs = return_a_def bind_a_def then_a_def try_catch_def patchState_def
  await_call_def await_all2_def await_all3_def run_def result_of_def state_after_def calls_of_def

lemma filter_out_unique:
  "length (filter P xs) = 1 \<Longrightarrow>
     \<exists>pre x post. xs = pre @ x # post \<and> P x \<and> filter (\<lambda>y. \<not> P y) xs = pre @ post
        \<and> (\<forall>y \<in> set pre \<union> set post. \<not> P y)"
proof (induction xs)
  case Nil
  then show ?case by simp
next
  case (Cons a xs)
  show ?case
  proof (cases "P a")
    case True
    with Cons.prems have "filter P xs = []" by simp
    then have none: "\<forall>y \<in> set xs. \<not> P y" by (simp add: filter_empty_conv)
    then have "filter (\<lambda>y. \<not> P y) xs = xs" by simp
    with True none have "a # xs = [] @ a # xs \<and> P a \<and> filter (\<lambda>y. \<not> P y) (a # xs) = [] @ xs
        \<and> (\<forall>y \<in> set [] \<union> set xs. \<not> P y)" by simp
    then show ?thesis by blast
  next
    case False
    with Cons.prems have "length (filter P xs) = 1" by simp
    from Cons.IH [OF this] obtain pre x post where
      h: "xs = pre @ x # post" "P x" "filter (\<lambda>y. \<not> P y) xs = pre @ post"
         "\<forall>y \<in> set pre \<union> set post. \<not> P y" by blast
    with False have "a # xs = (a # pre) @ x # post \<and> P x
        \<and> filter (\<lambda>y. \<not> P y) (a # xs) = (a # pre) @ post
        \<and> (\<forall>y \<in> set (a # pre) \<union> set post. \<not> P y)" by simp
    then show ?thesis by blast
  qed
qed

text \<open>
  C2. When \<^verbatim>\<open>activateMenu\<close> succeeds, it has re-fetched the menu, the active menu and the
  menu list; if the list the server returned has at most one menu in state \<open>Active\<close>, then
  at most one menu of the store's \<open>menus\<close> is \<open>Active\<close>, whatever the store held before.
\<close>

theorem activateMenu_at_most_one_active:
  assumes "result_of (activateMenu menuApi cafeId menuId) s = Inr True"
    and "\<forall>listResponse. api_listMenus menuApi cafeId = Inr listResponse \<longrightarrow>
           length (filter (\<lambda>m. summary_state m = Active) (response_menus listResponse)) \<le> 1"
  shows "length (activeMenus (state_after (activateMenu menuApi cafeId menuId) s)) \<le> 1"
  using assms
  by (auto simp: activateMenu_def action_defs activeMenus_def split: sum.splits)

text \<open>The statement above, run on the example data.\<close>

theorem activateMenu_at_most_one_active_witness:
  "result_of (activateMenu ex_menu_api ''c1'' ''m2'') ex_menu_store = Inr True
   \<and> activeMenus ex_menu_store = [ex_menu ''m1'' Active]
   \<and> length (activeMenus (state_after (activateMenu ex_menu_api ''c1'' ''m2'') ex_menu_store)) \<le> 1
   \<and> activeMenus (state_after (activateMenu ex_menu_api ''c1'' ''m2'') ex_menu_store)
        = [ex_menu ''m2'' Active]"
  using activateMenu_at_most_one_active [of ex_menu_api "''c1''" "''m2''" ex_menu_store]
  by (simp add: activateMenu_def action_defs activeMenus_def ex_menu_api_def ex_menu_store_def
      ex_menu_def)

text \<open>
  C3, as stated, fails for the two delete methods: a successful \<^verbatim>\<open>deleteCafe\<close> or
  \<^verbatim>\<open>deleteMenu\<close> issues the delete request only and filters the collection it already holds;
  here the server's list differs from what the store ends with.
\<close>

theorem deleteCafe_does_not_refetch:
  "result_of (deleteCafe ex_cafe_api ''c1'') ex_cafe_store = Inr True
   \<and> calls_of (deleteCafe ex_cafe_api ''c1'') ex_cafe_store = [DeleteCafe ''c1'']
   \<and> api_listCafes ex_cafe_api = Inr \<lparr> response_cafes = [ex_cafe ''c2'', ex_cafe ''c3''] \<rparr>
   \<and> cafes (state_after (deleteCafe ex_cafe_api ''c1'') ex_cafe_store) = [ex_cafe ''c2'']
   \<and> result_of (deleteMenu ex_menu_api ''c1'' ''m2'') ex_menu_store = Inr True
   \<and> calls_of (deleteMenu ex_menu_api ''c1'' ''m2'') ex_menu_store = [DeleteMenu ''c1'' ''m2'']
   \<and> menus (state_after (deleteMenu ex_menu_api ''c1'' ''m2'') ex_menu_store) = [ex_menu ''m1'' Active]"
  by (simp add: deleteCafe_def deleteMenu_def action_defs ex_cafe_api_def ex_cafe_store_def
      ex_cafe_def ex_menu_api_def ex_menu_store_def ex_menu_def)

text \<open>
  C3, amended. After their request succeeds, \<^verbatim>\<open>createCafe\<close>, \<^verbatim>\<open>createMenu\<close>, \<^verbatim>\<open>updateMenu\<close>,
  \<^verbatim>\<open>cloneMenu\<close>, \<^verbatim>\<open>publishMenu\<close> and \<^verbatim>\<open>activateMenu\<close> re-fetch the affected slices from the
  server and, when the re-fetch succeeds, store exactly what the server returned.
  \<^verbatim>\<open>deleteCafe\<close> and \<^verbatim>\<open>deleteMenu\<close> issue no further request: they remove the entities with
  the given id from the collection they hold and clear the selection if it has that id.
\<close>

theorem refresh_after_mutate:
  "(api_createCafe cafeApi request = Inr created \<longrightarrow>
      calls_of (createCafe cafeApi request) cs = [CreateCafe request, ListCafes]
      \<and> (\<forall>list. api_listCafes cafeApi = Inr list \<longrightarrow>
            result_of (createCafe cafeApi request) cs = Inr (Some (response_cafeId created))
            \<and> cafes (state_after (createCafe cafeApi request) cs) = response_cafes list))
 \<and> (api_createMenu menuApi cid request = Inr createdMenu \<longrightarrow>
      calls_of (createMenu menuApi cid request) ms = [CreateMenu cid request, ListMenus cid]
      \<and> (\<forall>list. api_listMenus menuApi cid = Inr list \<longrightarrow>
            result_of (createMenu menuApi cid request) ms = Inr (Some (response_menuId createdMenu))
            \<and> menus (state_after (createMenu menuApi cid request) ms) = response_menus list))
 \<and> (api_updateMenu menuApi cid mid request = Inr () \<longrightarrow>
      calls_of (updateMenu menuApi cid mid request) ms
        = [UpdateMenu cid mid request, GetMenu cid mid, ListMenus cid]
      \<and> (\<forall>menu list. api_getMenu menuApi cid mid = Inr menu \<and> api_listMenus menuApi cid = Inr list \<longrightarrow>
            result_of (updateMenu menuApi cid mid request) ms = Inr True
            \<and> selectedMenu (state_after (updateMenu menuApi cid mid request) ms) = Some menu
            \<and> menus (state_after (updateMenu menuApi cid mid request) ms) = response_menus list))
 \<and> (api_cloneMenu menuApi cid mid newName = Inr cloned \<longrightarrow>
      calls_of (cloneMenu menuApi cid mid newName) ms = [CloneMenu cid mid newName, ListMenus cid]
      \<and> (\<forall>list. api_listMenus menuApi cid = Inr list \<longrightarrow>
            result_of (cloneMenu menuApi cid mid newName) ms = Inr (Some (response_menuId cloned))
            \<and> menus (state_after (cloneMenu menuApi cid mid newName) ms) = response_menus list))
 \<and> (api_publishMenu menuApi cid mid = Inr () \<longrightarrow>
      calls_of (publishMenu menuApi cid mid) ms = [PublishMenu cid mid, GetMenu cid mid, ListMenus cid]
      \<and> (\<forall>menu list. api_getMenu menuApi cid mid = Inr menu \<and> api_listMenus menuApi cid = Inr list \<longrightarrow>
            result_of (publishMenu menuApi cid mid) ms = Inr True
            \<and> selectedMenu (state_after (publishMenu menuApi cid mid) ms) = Some menu
            \<and> menus (state_after (publishMenu menuApi cid mid) ms) = response_menus list))
 \<and> (api_activateMenu menuApi cid mid = Inr () \<longrightarrow>
      calls_of (activateMenu menuApi cid mid) ms
        = [ActivateMenu cid mid, GetMenu cid mid, GetActiveMenu cid, ListMenus cid]
      \<and> (\<forall>menu active list. api_getMenu menuApi cid mid = Inr menu
              \<and> api_getActiveMenu menuApi cid = Inr active \<and> api_listMenus menuApi cid = Inr list \<longrightarrow>
            result_of (activateMenu menuApi cid mid) ms = Inr True
            \<and> selectedMenu (state_after (activateMenu menuApi cid mid) ms) = Some menu
            \<and> activeMenu (state_after (activateMenu menuApi cid mid) ms) = Some active
            \<and> menus (state_after (activateMenu menuApi cid mid) ms) = response_menus list))
 \<and> (api_deleteCafe cafeApi cafeId = Inr () \<longrightarrow>
      calls_of (deleteCafe cafeApi cafeId) cs = [DeleteCafe cafeId]
      \<and> result_of (deleteCafe cafeApi cafeId) cs = Inr True
      \<and> cafes (state_after (deleteCafe cafeApi cafeId) cs)
          = filter (\<lambda>c. cafe_id c \<noteq> cafeId) (cafes cs)
      \<and> selectedCafe (state_after (deleteCafe cafeApi cafeId) cs)
          = (if map_option cafe_id (selectedCafe cs) = Some cafeId then None else selectedCafe cs))
 \<and> (api_deleteMenu menuApi cid mid = Inr () \<longrightarrow>
      calls_of (deleteMenu menuApi cid mid) ms = [DeleteMenu cid mid]
      \<and> result_of (deleteMenu menuApi cid mid) ms = Inr True
      \<and> menus (state_after (deleteMenu menuApi cid mid) ms)
          = filter (\<lambda>m. summary_menuId m \<noteq> mid) (menus ms)
      \<and> selectedMenu (state_after (deleteMenu menuApi cid mid) ms)
          = (if map_option menu_id (selectedMenu ms) = Some mid then None else selectedMenu ms))"
proof (intro conjI)
  show "api_createCafe cafeApi request = Inr created \<longrightarrow>
      calls_of (createCafe cafeApi request) cs = [CreateCafe request, ListCafes]
      \<and> (\<forall>list. api_listCafes cafeApi = Inr list \<longrightarrow>
            result_of (createCafe cafeApi request) cs = Inr (Some (response_cafeId created))
            \<and> cafes (state_after (createCafe cafeApi request) cs) = response_cafes list)"
    by (auto simp: createCafe_def action_defs split: sum.splits)
  show "api_createMenu menuApi cid request = Inr createdMenu \<longrightarrow>
      calls_of (createMenu menuApi cid request) ms = [CreateMenu cid request, ListMenus cid]
      \<and> (\<forall>list. api_listMenus menuApi cid = Inr list \<longrightarrow>
            result_of (createMenu menuApi cid request) ms = Inr (Some (response_menuId createdMenu))
            \<and> menus (state_after (createMenu menuApi cid request) ms) = response_menus list)"
    by (auto simp: createMenu_def action_defs split: sum.splits)
  show "api_updateMenu menuApi cid mid request = Inr () \<longrightarrow>
      calls_of (updateMenu menuApi cid mid request) ms
        = [UpdateMenu cid mid request, GetMenu cid mid, ListMenus cid]
      \<and> (\<forall>menu list. api_getMenu menuApi cid mid = Inr menu \<and> api_listMenus menuApi cid = Inr list \<longrightarrow>
            result_of (updateMenu menuApi cid mid request) ms = Inr True
            \<and> selectedMenu (state_after (updateMenu menuApi cid mid request) ms) = Some menu
            \<and> menus (state_after (updateMenu menuApi cid mid request) ms) = response_menus list)"
    by (auto simp: updateMenu_def action_defs split: sum.splits)
  show "api_cloneMenu menuApi cid mid newName = Inr cloned \<longrightarrow>
      calls_of (cloneMenu menuApi cid mid newName) ms = [CloneMenu cid mid newName, ListMenus cid]
      \<and> (\<forall>list. api_listMenus menuApi cid = Inr list \<longrightarrow>
            result_of (cloneMenu menuApi cid mid newName) ms = Inr (Some (response_menuId cloned))
            \<and> menus (state_after (cloneMenu menuApi cid mid newName) ms) = response_menus list)"
    by (auto simp: cloneMenu_def action_defs split: sum.splits)
  show "api_publishMenu menuApi cid mid = Inr () \<longrightarrow>
      calls_of (publishMenu menuApi cid mid) ms = [PublishMenu cid mid, GetMenu cid mid, ListMenus cid]
      \<and> (\<forall>menu list. api_getMenu menuApi cid mid = Inr menu \<and> api_listMenus menuApi cid = Inr list \<longrightarrow>
            result_of (publishMenu menuApi cid mid) ms = Inr True
            \<and> selectedMenu (state_after (publishMenu menuApi cid mid) ms) = Some menu
            \<and> menus (state_after (publishMenu menuApi cid mid) ms) = response_menus list)"
    by (auto simp: publishMenu_def action_defs split: sum.splits)
  show "api_activateMenu menuApi cid mid = Inr () \<longrightarrow>
      calls_of (activateMenu menuApi cid mid) ms
        = [ActivateMenu cid mid, GetMenu cid mid, GetActiveMenu cid, ListMenus cid]
      \<and> (\<forall>menu active list. api_getMenu menuApi cid mid = Inr menu
              \<and> api_getActiveMenu menuApi cid = Inr active \<and> api_listMenus menuApi cid = Inr list \<longrightarrow>
            result_of (activateMenu menuApi cid mid) ms = Inr True
            \<and> selectedMenu (state_after (activateMenu menuApi cid mid) ms) = Some menu
            \<and> activeMenu (state_after (activateMenu menuApi cid mid) ms) = Some active
            \<and> menus (state_after (activateMenu menuApi cid mid) ms) = response_menus list)"
    by (auto simp: activateMenu_def action_defs split: sum.splits)
  show "api_deleteCafe cafeApi cafeId = Inr () \<longrightarrow>
      calls_of (deleteCafe cafeApi cafeId) cs = [DeleteCafe cafeId]
      \<and> result_of (deleteCafe cafeApi cafeId) cs = Inr True
      \<and> cafes (state_after (deleteCafe cafeApi cafeId) cs)
          = filter (\<lambda>c. cafe_id c \<noteq> cafeId) (cafes cs)
      \<and> selectedCafe (state_after (deleteCafe cafeApi cafeId) cs)
          = (if map_option cafe_id (selectedCafe cs) = Some cafeId then None else selectedCafe cs)"
    by (auto simp: deleteCafe_def action_defs split: sum.splits)
  show "api_deleteMenu menuApi cid mid = Inr () \<longrightarrow>
      calls_of (deleteMenu menuApi cid mid) ms = [DeleteMenu cid mid]
      \<and> result_of (deleteMenu menuApi cid mid) ms = Inr True
      \<and> menus (state_after (deleteMenu menuApi cid mid) ms)
          = filter (\<lambda>m. summary_menuId m \<noteq> mid) (menus ms)
      \<and> selectedMenu (state_after (deleteMenu menuApi cid mid) ms)
          = (if map_option menu_id (selectedMenu ms) = Some mid then None else selectedMenu ms)"
    by (auto simp: deleteMenu_def action_defs split: sum.splits)
qed

text \<open>The statement above, run on the example data.\<close>

theorem refresh_after_mutate_witness:
  "api_createCafe ex_cafe_api (JObj []) = Inr \<lparr> response_cafeId = ''c3'' \<rparr>
   \<and> calls_of (createCafe ex_cafe_api (JObj [])) ex_cafe_store = [CreateCafe (JObj []), ListCafes]
   \<and> cafes (state_after (createCafe ex_cafe_api (JObj [])) ex_cafe_store)
        = [ex_cafe ''c2'', ex_cafe ''c3'']
   \<and> calls_of (createMenu ex_menu_api ''c1'' (JObj [])) ex_menu_store
        = [CreateMenu ''c1'' (JObj []), ListMenus ''c1'']
   \<and> calls_of (updateMenu ex_menu_api ''c1'' ''m2'' (JObj [])) ex_menu_store
        = [UpdateMenu ''c1'' ''m2'' (JObj []), GetMenu ''c1'' ''m2'', ListMenus ''c1'']
   \<and> calls_of (cloneMenu ex_menu_api ''c1'' ''m2'' ''Copy'') ex_menu_store
        = [CloneMenu ''c1'' ''m2'' ''Copy'', ListMenus ''c1'']
   \<and> calls_of (publishMenu ex_menu_api ''c1'' ''m2'') ex_menu_store
        = [PublishMenu ''c1'' ''m2'', GetMenu ''c1'' ''m2'', ListMenus ''c1'']
   \<and> calls_of (activateMenu ex_menu_api ''c1'' ''m2'') ex_menu_store
        = [ActivateMenu ''c1'' ''m2'', GetMenu ''c1'' ''m2'', GetActiveMenu ''c1'', ListMenus ''c1'']
   \<and> menus (state_after (activateMenu ex_menu_api ''c1'' ''m2'') ex_menu_store)
        = [ex_menu ''m1'' Published, ex_menu ''m2'' Active]
   \<and> calls_of (deleteCafe ex_cafe_api ''c1'') ex_cafe_store = [DeleteCafe ''c1'']
   \<and> cafes (state_after (deleteCafe ex_cafe_api ''c1'') ex_cafe_store)
        = filter (\<lambda>c. cafe_id c \<noteq> ''c1'') (cafes ex_cafe_store)
   \<and> calls_of (deleteMenu ex_menu_api ''c1'' ''m2'') ex_menu_store = [DeleteMenu ''c1'' ''m2'']
   \<and> menus (state_after (deleteMenu ex_menu_api ''c1'' ''m2'') ex_menu_store)
        = filter (\<lambda>m. summary_menuId m \<noteq> ''m2'') (menus ex_menu_store)"
proof -
  have c: "api_createCafe ex_cafe_api (JObj []) = Inr \<lparr> response_cafeId = ''c3'' \<rparr>"
    "api_listCafes ex_cafe_api = Inr \<lparr> response_cafes = [ex_cafe ''c2'', ex_cafe ''c3''] \<rparr>"
    "api_deleteCafe ex_cafe_api ''c1'' = Inr ()"
    by (simp_all add: ex_cafe_api_def)
  have m: "api_createMenu ex_menu_api ''c1'' (JObj []) = Inr \<lparr> response_menuId = ''m3'' \<rparr>"
    "api_updateMenu ex_menu_api ''c1'' ''m2'' (JObj []) = Inr ()"
    "api_cloneMenu ex_menu_api ''c1'' ''m2'' ''Copy'' = Inr \<lparr> response_menuId = ''m4'' \<rparr>"
    "api_publishMenu ex_menu_api ''c1'' ''m2'' = Inr ()"
    "api_activateMenu ex_menu_api ''c1'' ''m2'' = Inr ()"
    "api_deleteMenu ex_menu_api ''c1'' ''m2'' = Inr ()"
    "api_getMenu ex_menu_api ''c1'' ''m2'' = Inr (ex_full_menu ''m2'' Active)"
    "api_getActiveMenu ex_menu_api ''c1'' = Inr (ex_full_menu ''m2'' Active)"
    "api_listMenus ex_menu_api ''c1''
       = Inr \<lparr> response_menus = [ex_menu ''m1'' Published, ex_menu ''m2'' Active] \<rparr>"
    by (simp_all add: ex_menu_api_def)
  note t = refresh_after_mutate [where cafeApi = ex_cafe_api and request = "JObj []"
      and created = "\<lparr> response_cafeId = ''c3'' \<rparr>" and cs = ex_cafe_store and cafeId = "''c1''"
      and menuApi = ex_menu_api and cid = "''c1''" and ms = ex_menu_store and mid = "''m2''"
      and newName = "''Copy''" and createdMenu = "\<lparr> response_menuId = ''m3'' \<rparr>"
      and cloned = "\<lparr> response_menuId = ''m4'' \<rparr>"]
  from t c m show ?thesis by auto
qed

text \<open>
  C4, as stated, fails for \<^verbatim>\<open>loadActiveMenu\<close>: when the request rejects, the method resolves
  and leaves \<open>error\<close> empty.
\<close>

theorem loadActiveMenu_failure_sets_no_error:
  "api_getActiveMenu ex_failing_menu_api ''c1'' = Inl OtherRejection
   \<and> result_of (loadActiveMenu ex_failing_menu_api ''c1'') ex_menu_store = Inr ()
   \<and> error (state_after (loadActiveMenu ex_failing_menu_api ''c1'') ex_menu_store) = None
   \<and> activeMenu (state_after (loadActiveMenu ex_failing_menu_api ''c1'') ex_menu_store) = None"
  by (simp add: loadActiveMenu_def action_defs ex_failing_menu_api_def ex_menu_store_def)

text \<open>
  C4, amended. Every load method resolves with no value for every outcome of its request and
  never throws. When the request rejects, \<^verbatim>\<open>loadCafes\<close>, \<^verbatim>\<open>selectCafe\<close>, \<^verbatim>\<open>loadMenus\<close>,
  \<^verbatim>\<open>selectMenu\<close> and \<^verbatim>\<open>loadMenu\<close> set \<open>error\<close> to the message of the rejection (or to their
  default text) and stop loading; \<^verbatim>\<open>loadActiveMenu\<close> instead sets \<open>activeMenu\<close> to null, stops
  loading and leaves \<open>error\<close> empty.
\<close>

theorem load_methods_report_failure:
  "result_of (loadCafes cafeApi) cs = Inr ()
 \<and> (\<forall>e. api_listCafes cafeApi = Inl e \<longrightarrow>
      state_after (loadCafes cafeApi) cs
        = cs\<lparr>loading := False, error := Some (errorMessage e ''Failed to load cafes'')\<rparr>)
 \<and> result_of (selectCafe cafeApi cafeId) cs = Inr ()
 \<and> (\<forall>e. api_getCafe cafeApi cafeId = Inl e \<longrightarrow>
      state_after (selectCafe cafeApi cafeId) cs
        = cs\<lparr>loading := False, error := Some (errorMessage e ''Failed to load cafe'')\<rparr>)
 \<and> result_of (loadMenus menuApi cid) ms = Inr ()
 \<and> (\<forall>e. api_listMenus menuApi cid = Inl e \<longrightarrow>
      state_after (loadMenus menuApi cid) ms
        = ms\<lparr>loading := False, error := Some (errorMessage e ''Failed to load menus''),
             currentCafeId := Some cid\<rparr>)
 \<and> result_of (selectMenu menuApi cid mid) ms = Inr ()
 \<and> result_of (loadMenu menuApi cid mid) ms = Inr ()
 \<and> (\<forall>e. api_getMenu menuApi cid mid = Inl e \<longrightarrow>
      state_after (selectMenu menuApi cid mid) ms
        = ms\<lparr>loading := False, error := Some (errorMessage e ''Failed to load menu'')\<rparr>
      \<and> state_after (loadMenu menuApi cid mid) ms
        = ms\<lparr>loading := False, error := Some (errorMessage e ''Failed to load menu'')\<rparr>)
 \<and> result_of (loadActiveMenu menuApi cid) ms = Inr ()
 \<and> (\<forall>e. api_getActiveMenu menuApi cid = Inl e \<longrightarrow>
      state_after (loadActiveMenu menuApi cid) ms
        = ms\<lparr>loading := False, error := None, activeMenu := None\<rparr>)"
proof (intro conjI)
  show "result_of (loadCafes cafeApi) cs = Inr ()"
    by (auto simp: loadCafes_def action_defs split: sum.splits)
  show "\<forall>e. api_listCafes cafeApi = Inl e \<longrightarrow>
      state_after (loadCafes cafeApi) cs
        = cs\<lparr>loading := False, error := Some (errorMessage e ''Failed to load cafes'')\<rparr>"
    by (auto simp: loadCafes_def action_defs split: sum.splits)
  show "result_of (selectCafe cafeApi cafeId) cs = Inr ()"
    by (auto simp: selectCafe_def action_defs split: sum.splits)
  show "\<forall>e. api_getCafe cafeApi cafeId = Inl e \<longrightarrow>
      state_after (selectCafe cafeApi cafeId) cs
        = cs\<lparr>loading := False, error := Some (errorMessage e ''Failed to load cafe'')\<rparr>"
    by (auto simp: selectCafe_def action_defs split: sum.splits)
  show "result_of (loadMenus menuApi cid) ms = Inr ()"
    by (auto simp: loadMenus_def action_defs split: sum.splits)
  show "\<forall>e. api_listMenus menuApi cid = Inl e \<longrightarrow>
      state_after (loadMenus menuApi cid) ms
        = ms\<lparr>loading := False, error := Some (errorMessage e ''Failed to load menus''),
             currentCafeId := Some cid\<rparr>"
    by (auto simp: loadMenus_def action_defs split: sum.splits)
  show "result_of (selectMenu menuApi cid mid) ms = Inr ()"
    by (auto simp: selectMenu_def action_defs split: sum.splits)
  show "result_of (loadMenu menuApi cid mid) ms = Inr ()"
    by (auto simp: loadMenu_def selectMenu_def action_defs split: sum.splits)
  show "\<forall>e. api_getMenu menuApi cid mid = Inl e \<longrightarrow>
      state_after (selectMenu menuApi cid mid) ms
        = ms\<lparr>loading := False, error := Some (errorMessage e ''Failed to load menu'')\<rparr>
      \<and> state_after (loadMenu menuApi cid mid) ms
        = ms\<lparr>loading := False, error := Some (errorMessage e ''Failed to load menu'')\<rparr>"
    by (auto simp: loadMenu_def selectMenu_def action_defs split: sum.splits)
  show "result_of (loadActiveMenu menuApi cid) ms = Inr ()"
    by (auto simp: loadActiveMenu_def action_defs split: sum.splits)
  show "\<forall>e. api_getActiveMenu menuApi cid = Inl e \<longrightarrow>
      state_after (loadActiveMenu menuApi cid) ms
        = ms\<lparr>loading := False, error := None, activeMenu := None\<rparr>"
    by (auto simp: loadActiveMenu_def action_defs split: sum.splits)
qed

text \<open>The statement above, run on the example data.\<close>

theorem load_methods_report_failure_witness:
  "api_listCafes ex_failing_cafe_api = Inl (ErrorInstance ''API Error'')
   \<and> result_of (loadCafes ex_failing_cafe_api) ex_cafe_store = Inr ()
   \<and> error (state_after (loadCafes ex_failing_cafe_api) ex_cafe_store) = Some ''API Error''
   \<and> error (state_after (selectCafe ex_failing_cafe_api ''c1'') ex_cafe_store)
        = Some ''Failed to load cafe''
   \<and> error (state_after (loadMenus ex_failing_menu_api ''c1'') ex_menu_store) = Some ''API Error''
   \<and> error (state_after (selectMenu ex_failing_menu_api ''c1'' ''m2'') ex_menu_store)
        = Some ''Failed to load menu''
   \<and> error (state_after (loadMenu ex_failing_menu_api ''c1'' ''m2'') ex_menu_store)
        = Some ''Failed to load menu''
   \<and> error (state_after (loadActiveMenu ex_failing_menu_api ''c1'') ex_menu_store) = None"
proof -
  have c: "api_listCafes ex_failing_cafe_api = Inl (ErrorInstance ''API Error'')"
    "api_getCafe ex_failing_cafe_api ''c1'' = Inl OtherRejection"
    by (simp_all add: ex_failing_cafe_api_def)
  have m: "api_listMenus ex_failing_menu_api ''c1'' = Inl (ErrorInstance ''API Error'')"
    "api_getMenu ex_failing_menu_api ''c1'' ''m2'' = Inl OtherRejection"
    "api_getActiveMenu ex_failing_menu_api ''c1'' = Inl OtherRejection"
    by (simp_all add: ex_failing_menu_api_def)
  note t = load_methods_report_failure [where cafeApi = ex_failing_cafe_api and cs = ex_cafe_store
      and cafeId = "''c1''" and menuApi = ex_failing_menu_api and cid = "''c1''"
      and ms = ex_menu_store and mid = "''m2''"]
  from t c m show ?thesis by auto
qed

text \<open>
  C8. When the id of the target occurs exactly once in the store's collection, a successful
  \<^verbatim>\<open>deleteCafe\<close> (respectively \<^verbatim>\<open>deleteMenu\<close>) leaves the collection with exactly that one
  entity removed: the entities before it and after it are kept as they were, in their order.
\<close>

theorem delete_removes_exactly_that_entity:
  "(result_of (deleteCafe cafeApi cafeId) cs = Inr True
      \<and> length (filter (\<lambda>c. cafe_id c = cafeId) (cafes cs)) = 1
    \<longrightarrow> (\<exists>pre x post. cafes cs = pre @ x # post \<and> cafe_id x = cafeId
          \<and> cafes (state_after (deleteCafe cafeApi cafeId) cs) = pre @ post
          \<and> (\<forall>y \<in> set pre \<union> set post. cafe_id y \<noteq> cafeId)))
 \<and> (result_of (deleteMenu menuApi cafeId' menuId) ms = Inr True
      \<and> length (filter (\<lambda>m. summary_menuId m = menuId) (menus ms)) = 1
    \<longrightarrow> (\<exists>pre x post. menus ms = pre @ x # post \<and> summary_menuId x = menuId
          \<and> menus (state_after (deleteMenu menuApi cafeId' menuId) ms) = pre @ post
          \<and> (\<forall>y \<in> set pre \<union> set post. summary_menuId y \<noteq> menuId)))"
proof (intro conjI impI)
  assume a: "result_of (deleteCafe cafeApi cafeId) cs = Inr True
      \<and> length (filter (\<lambda>c. cafe_id c = cafeId) (cafes cs)) = 1"
  then have "cafes (state_after (deleteCafe cafeApi cafeId) cs)
      = filter (\<lambda>c. \<not> cafe_id c = cafeId) (cafes cs)"
    by (auto simp: deleteCafe_def action_defs split: sum.splits)
  with filter_out_unique [of "\<lambda>c. cafe_id c = cafeId" "cafes cs"] a
  show "\<exists>pre x post. cafes cs = pre @ x # post \<and> cafe_id x = cafeId
          \<and> cafes (state_after (deleteCafe cafeApi cafeId) cs) = pre @ post
          \<and> (\<forall>y \<in> set pre \<union> set post. cafe_id y \<noteq> cafeId)"
    by auto
next
  assume a: "result_of (deleteMenu menuApi cafeId' menuId) ms = Inr True
      \<and> length (filter (\<lambda>m. summary_menuId m = menuId) (menus ms)) = 1"
  then have "menus (state_after (deleteMenu menuApi cafeId' menuId) ms)
      = filter (\<lambda>m. \<not> summary_menuId m = menuId) (menus ms)"
    by (auto simp: deleteMenu_def action_defs split: sum.splits)
  with filter_out_unique [of "\<lambda>m. summary_menuId m = menuId" "menus ms"] a
  show "\<exists>pre x post. menus ms = pre @ x # post \<and> summary_menuId x = menuId
          \<and> menus (state_after (deleteMenu menuApi cafeId' menuId) ms) = pre @ post
          \<and> (\<forall>y \<in> set pre \<union> set post. summary_menuId y \<noteq> menuId)"
    by auto
qed

text \<open>The statement above, run on the example data.\<close>

theorem delete_removes_exactly_that_entity_witness:
  "result_of (deleteCafe ex_cafe_api ''c1'') ex_cafe_store = Inr True
   \<and> length (filter (\<lambda>c. cafe_id c = ''c1'') (cafes ex_cafe_store)) = 1
   \<and> (\<exists>pre x post. cafes ex_cafe_store = pre @ x # post \<and> cafe_id x = ''c1''
          \<and> cafes (state_after (deleteCafe ex_cafe_api ''c1'') ex_cafe_store) = pre @ post)
   \<and> cafes (state_after (deleteCafe ex_cafe_api ''c1'') ex_cafe_store) = [ex_cafe ''c2'']
   \<and> result_of (deleteMenu ex_menu_api ''c1'' ''m2'') ex_menu_store = Inr True
   \<and> length (filter (\<lambda>m. summary_menuId m = ''m2'') (menus ex_menu_store)) = 1
   \<and> (\<exists>pre x post. menus ex_menu_store = pre @ x # post \<and> summary_menuId x = ''m2''
          \<and> menus (state_after (deleteMenu ex_menu_api ''c1'' ''m2'') ex_menu_store) = pre @ post)
   \<and> menus (state_after (deleteMenu ex_menu_api ''c1'' ''m2'') ex_menu_store)
        = [ex_menu ''m1'' Active]"
proof -
  have c: "result_of (deleteCafe ex_cafe_api ''c1'') ex_cafe_store = Inr True"
    "length (filter (\<lambda>c. cafe_id c = ''c1'') (cafes ex_cafe_store)) = 1"
    "cafes (state_after (deleteCafe ex_cafe_api ''c1'') ex_cafe_store) = [ex_cafe ''c2'']"
    by (simp_all add: deleteCafe_def action_defs ex_cafe_api_def ex_cafe_store_def ex_cafe_def)
  have m: "result_of (deleteMenu ex_menu_api ''c1'' ''m2'') ex_menu_store = Inr True"
    "length (filter (\<lambda>m. summary_menuId m = ''m2'') (menus ex_menu_store)) = 1"
    "menus (state_after (deleteMenu ex_menu_api ''c1'' ''m2'') ex_menu_store)
        = [ex_menu ''m1'' Active]"
    by (simp_all add: deleteMenu_def action_defs ex_menu_api_def ex_menu_store_def ex_menu_def)
  note t = delete_removes_exactly_that_entity [where cafeApi = ex_cafe_api and cafeId = "''c1''"
      and cs = ex_cafe_store and menuApi = ex_menu_api and cafeId' = "''c1''" and menuId = "''m2''"
      and ms = ex_menu_store]
  from t c m show ?thesis by blast
qed

text \<open>
  C10. For each mutating method of the two stores: if its request or one of its follow-up
  refresh requests rejects, the method resolves to \<^verbatim>\<open>null\<close> (\<open>None\<close>) or \<^verbatim>\<open>false\<close>, and the
  state afterwards is the state before with only \<open>loading\<close> (now false) and \<open>error\<close> (now set)
  changed; every other field keeps its value.
\<close>

theorem mutation_failure_keeps_state:
  "(isl (api_createCafe cafeApi request) \<or> isl (api_listCafes cafeApi) \<longrightarrow>
      result_of (createCafe cafeApi request) cs = Inr None
      \<and> state_after (createCafe cafeApi request) cs = cs\<lparr>loading := False, error := error (state_after (createCafe cafeApi request) cs)\<rparr>
      \<and> error (state_after (createCafe cafeApi request) cs) \<noteq> None)
 \<and> (isl (api_deleteCafe cafeApi cafeId) \<longrightarrow>
      result_of (deleteCafe cafeApi cafeId) cs = Inr False
      \<and> state_after (deleteCafe cafeApi cafeId) cs = cs\<lparr>loading := False, error := error (state_after (deleteCafe cafeApi cafeId) cs)\<rparr>
      \<and> error (state_after (deleteCafe cafeApi cafeId) cs) \<noteq> None)
 \<and> (isl (api_createMenu menuApi cid request) \<or> isl (api_listMenus menuApi cid) \<longrightarrow>
      result_of (createMenu menuApi cid request) ms = Inr None
      \<and> state_after (createMenu menuApi cid request) ms = ms\<lparr>loading := False, error := error (state_after (createMenu menuApi cid request) ms)\<rparr>
      \<and> error (state_after (createMenu menuApi cid request) ms) \<noteq> None)
 \<and> (isl (api_updateMenu menuApi cid mid request) \<or> isl (api_getMenu menuApi cid mid)
        \<or> isl (api_listMenus menuApi cid) \<longrightarrow>
      result_of (updateMenu menuApi cid mid request) ms = Inr False
      \<and> state_after (updateMenu menuApi cid mid request) ms = ms\<lparr>loading := False, error := error (state_after (updateMenu menuApi cid mid request) ms)\<rparr>
      \<and> error (state_after (updateMenu menuApi cid mid request) ms) \<noteq> None)
 \<and> (isl (api_deleteMenu menuApi cid mid) \<longrightarrow>
      result_of (deleteMenu menuApi cid mid) ms = Inr False
      \<and> state_after (deleteMenu menuApi cid mid) ms = ms\<lparr>loading := False, error := error (state_after (deleteMenu menuApi cid mid) ms)\<rparr>
      \<and> error (state_after (deleteMenu menuApi cid mid) ms) \<noteq> None)
 \<and> (isl (api_cloneMenu menuApi cid mid newName) \<or> isl (api_listMenus menuApi cid) \<longrightarrow>
      result_of (cloneMenu menuApi cid mid newName) ms = Inr None
      \<and> state_after (cloneMenu menuApi cid mid newName) ms = ms\<lparr>loading := False, error := error (state_after (cloneMenu menuApi cid mid newName) ms)\<rparr>
      \<and> error (state_after (cloneMenu menuApi cid mid newName) ms) \<noteq> None)
 \<and> (isl (api_publishMenu menuApi cid mid) \<or> isl (api_getMenu menuApi cid mid)
        \<or> isl (api_listMenus menuApi cid) \<longrightarrow>
      result_of (publishMenu menuApi cid mid) ms = Inr False
      \<and> state_after (publishMenu menuApi cid mid) ms = ms\<lparr>loading := False, error := error (state_after (publishMenu menuApi cid mid) ms)\<rparr>
      \<and> error (state_after (publishMenu menuApi cid mid) ms) \<noteq> None)
 \<and> (isl (api_activateMenu menuApi cid mid) \<or> isl (api_getMenu menuApi cid mid)
        \<or> isl (api_getActiveMenu menuApi cid) \<or> isl (api_listMenus menuApi cid) \<longrightarrow>
      result_of (activateMenu menuApi cid mid) ms = Inr False
      \<and> state_after (activateMenu menuApi cid mid) ms = ms\<lparr>loading := False, error := error (state_after (activateMenu menuApi cid mid) ms)\<rparr>
      \<and> error (state_after (activateMenu menuApi cid mid) ms) \<noteq> None)"
proof (intro conjI)
  show "isl (api_createCafe cafeApi request) \<or> isl (api_listCafes cafeApi) \<longrightarrow>
      result_of (createCafe cafeApi request) cs = Inr None
      \<and> state_after (createCafe cafeApi request) cs = cs\<lparr>loading := False, error := error (state_after (createCafe cafeApi request) cs)\<rparr>
      \<and> error (state_after (createCafe cafeApi request) cs) \<noteq> None"
    by (auto simp: createCafe_def action_defs isl_def split: sum.splits)
  show "isl (api_deleteCafe cafeApi cafeId) \<longrightarrow>
      result_of (deleteCafe cafeApi cafeId) cs = Inr False
      \<and> state_after (deleteCafe cafeApi cafeId) cs = cs\<lparr>loading := False, error := error (state_after (deleteCafe cafeApi cafeId) cs)\<rparr>
      \<and> error (state_after (deleteCafe cafeApi cafeId) cs) \<noteq> None"
    by (auto simp: deleteCafe_def action_defs isl_def split: sum.splits)
  show "isl (api_createMenu menuApi cid request) \<or> isl (api_listMenus menuApi cid) \<longrightarrow>
      result_of (createMenu menuApi cid request) ms = Inr None
      \<and> state_after (createMenu menuApi cid request) ms = ms\<lparr>loading := False, error := error (state_after (createMenu menuApi cid request) ms)\<rparr>
      \<and> error (state_after (createMenu menuApi cid request) ms) \<noteq> None"
    by (auto simp: createMenu_def action_defs isl_def split: sum.splits)
  show "isl (api_updateMenu menuApi cid mid request) \<or> isl (api_getMenu menuApi cid mid)
        \<or> isl (api_listMenus menuApi cid) \<longrightarrow>
      result_of (updateMenu menuApi cid mid request) ms = Inr False
      \<and> state_after (updateMenu menuApi cid mid request) ms = ms\<lparr>loading := False, error := error (state_after (updateMenu menuApi cid mid request) ms)\<rparr>
      \<and> error (state_after (updateMenu menuApi cid mid request) ms) \<noteq> None"
    by (auto simp: updateMenu_def action_defs isl_def split: sum.splits)
  show "isl (api_deleteMenu menuApi cid mid) \<longrightarrow>
      result_of (deleteMenu menuApi cid mid) ms = Inr False
      \<and> state_after (deleteMenu menuApi cid mid) ms = ms\<lparr>loading := False, error := error (state_after (deleteMenu menuApi cid mid) ms)\<rparr>
      \<and> error (state_after (deleteMenu menuApi cid mid) ms) \<noteq> None"
    by (auto simp: deleteMenu_def action_defs isl_def split: sum.splits)
  show "isl (api_cloneMenu menuApi cid mid newName) \<or> isl (api_listMenus menuApi cid) \<longrightarrow>
      result_of (cloneMenu menuApi cid mid newName) ms = Inr None
      \<and> state_after (cloneMenu menuApi cid mid newName) ms = ms\<lparr>loading := False, error := error (state_after (cloneMenu menuApi cid mid newName) ms)\<rparr>
      \<and> error (state_after (cloneMenu menuApi cid mid newName) ms) \<noteq> None"
    by (auto simp: cloneMenu_def action_defs isl_def split: sum.splits)
  show "isl (api_publishMenu menuApi cid mid) \<or> isl (api_getMenu menuApi cid mid)
        \<or> isl (api_listMenus menuApi cid) \<longrightarrow>
      result_of (publishMenu menuApi cid mid) ms = Inr False
      \<and> state_after (publishMenu menuApi cid mid) ms = ms\<lparr>loading := False, error := error (state_after (publishMenu menuApi cid mid) ms)\<rparr>
      \<and> error (state_after (publishMenu menuApi cid mid) ms) \<noteq> None"
    by (auto simp: publishMenu_def action_defs isl_def split: sum.splits)
  show "isl (api_activateMenu menuApi cid mid) \<or> isl (api_getMenu menuApi cid mid)
        \<or> isl (api_getActiveMenu menuApi cid) \<or> isl (api_listMenus menuApi cid) \<longrightarrow>
      result_of (activateMenu menuApi cid mid) ms = Inr False
      \<and> state_after (activateMenu menuApi cid mid) ms = ms\<lparr>loading := False, error := error (state_after (activateMenu menuApi cid mid) ms)\<rparr>
      \<and> error (state_after (activateMenu menuApi cid mid) ms) \<noteq> None"
    by (auto simp: activateMenu_def action_defs isl_def split: sum.splits)
qed

text \<open>The statement above, run on the example data.\<close>

theorem mutation_failure_keeps_state_witness:
  "isl (api_listCafes ex_failing_cafe_api)
   \<and> result_of (createCafe ex_failing_cafe_api (JObj [])) ex_cafe_store = Inr None
   \<and> cafes (state_after (createCafe ex_failing_cafe_api (JObj [])) ex_cafe_store) = cafes ex_cafe_store
   \<and> selectedCafe (state_after (createCafe ex_failing_cafe_api (JObj [])) ex_cafe_store)
        = selectedCafe ex_cafe_store
   \<and> isl (api_deleteCafe ex_failing_cafe_api ''c1'')
   \<and> result_of (deleteCafe ex_failing_cafe_api ''c1'') ex_cafe_store = Inr False
   \<and> cafes (state_after (deleteCafe ex_failing_cafe_api ''c1'') ex_cafe_store) = cafes ex_cafe_store
   \<and> isl (api_listMenus ex_failing_menu_api ''c1'')
   \<and> result_of (createMenu ex_failing_menu_api ''c1'' (JObj [])) ex_menu_store = Inr None
   \<and> result_of (updateMenu ex_failing_menu_api ''c1'' ''m2'' (JObj [])) ex_menu_store = Inr False
   \<and> isl (api_deleteMenu ex_failing_menu_api ''c1'' ''m2'')
   \<and> result_of (deleteMenu ex_failing_menu_api ''c1'' ''m2'') ex_menu_store = Inr False
   \<and> isl (api_cloneMenu ex_failing_menu_api ''c1'' ''m2'' ''Copy'')
   \<and> result_of (cloneMenu ex_failing_menu_api ''c1'' ''m2'' ''Copy'') ex_menu_store = Inr None
   \<and> result_of (publishMenu ex_failing_menu_api ''c1'' ''m2'') ex_menu_store = Inr False
   \<and> result_of (activateMenu ex_failing_menu_api ''c1'' ''m2'') ex_menu_store = Inr False
   \<and> menus (state_after (activateMenu ex_failing_menu_api ''c1'' ''m2'') ex_menu_store)
        = menus ex_menu_store
   \<and> activeMenu (state_after (activateMenu ex_failing_menu_api ''c1'' ''m2'') ex_menu_store)
        = activeMenu ex_menu_store
   \<and> selectedMenu (state_after (activateMenu ex_failing_menu_api ''c1'' ''m2'') ex_menu_store)
        = selectedMenu ex_menu_store"
proof -
  have c: "isl (api_listCafes ex_failing_cafe_api)" "isl (api_deleteCafe ex_failing_cafe_api ''c1'')"
    by (simp_all add: ex_failing_cafe_api_def)
  have m: "isl (api_listMenus ex_failing_menu_api ''c1'')"
    "isl (api_deleteMenu ex_failing_menu_api ''c1'' ''m2'')"
    "isl (api_cloneMenu ex_failing_menu_api ''c1'' ''m2'' ''Copy'')"
    by (simp_all add: ex_failing_menu_api_def)
  note t = mutation_failure_keeps_state [where cafeApi = ex_failing_cafe_api and request = "JObj []"
      and cs = ex_cafe_store and cafeId = "''c1''" and menuApi = ex_failing_menu_api
      and cid = "''c1''" and ms = ex_menu_store and mid = "''m2''" and newName = "''Copy''"]
  from t c m show ?thesis by auto
qed

subsection \<open>Form error mapper\<close>

lemma other_entries_without_backend:
  "other_entries (without_backend errs) = other_entries errs"
  by (cases errs) (auto simp: other_entries_def without_backend_def has_backend_def Let_def
      filter_empty_conv)

lemma map_of_without_backend:
  "key \<noteq> ''backend'' \<Longrightarrow>
     (case without_backend errs of None \<Rightarrow> None | Some kvs \<Rightarrow> map_of kvs key)
       = (case errs of None \<Rightarrow> None | Some kvs \<Rightarrow> map_of kvs key)"
proof (cases errs)
  case None
  then show ?thesis by (simp add: without_backend_def has_backend_def)
next
  case (Some kvs)
  assume k: "key \<noteq> ''backend''"
  have m: "map_of (filter (\<lambda>kv. fst kv \<noteq> ''backend'') kvs) key = map_of kvs key"
    using k by (induction kvs) auto
  show ?thesis
  proof (cases "has_backend errs")
    case False
    then show ?thesis by (simp add: without_backend_def)
  next
    case True
    show ?thesis
    proof (cases "filter (\<lambda>kv. fst kv \<noteq> ''backend'') kvs = []")
      case True
      with m have "map_of kvs key = None" by simp
      with True \<open>has_backend errs\<close> Some show ?thesis by (simp add: without_backend_def)
    next
      case False
      with m \<open>has_backend errs\<close> Some show ?thesis by (simp add: without_backend_def)
    qed
  qed
qed

lemma backend_gone_without_backend:
  "has_backend errs \<Longrightarrow>
     (case without_backend errs of None \<Rightarrow> None | Some kvs \<Rightarrow> map_of kvs ''backend'') = None"
proof -
  have "map_of (filter (\<lambda>kv. fst kv \<noteq> ''backend'') kvs) ''backend'' = None" for kvs :: ValidationErrors
    by (induction kvs) auto
  then show "has_backend errs \<Longrightarrow> ?thesis"
    by (simp add: without_backend_def Let_def)
qed

lemma clearFormErrors_node:
  "ctrl_errors (clearFormErrors c) = without_backend (ctrl_errors c)
   \<and> ctrl_touched (clearFormErrors c) = ctrl_touched c"
  by (cases c) simp_all

lemma form_value_clearFormErrors: "form_value (clearFormErrors c) = form_value c"
  by (induction c) (auto simp: snds.simps)

lemma control_at_clearFormErrors:
  "control_at (clearFormErrors form) addr = map_option clearFormErrors (control_at form addr)"
proof (induction addr arbitrary: form)
  case Nil
  show ?case by simp
next
  case (Cons i rest)
  show ?case by (cases form) (simp_all add: Cons.IH)
qed

text \<open>
  C6. Clearing the mapped server errors touches, on every node of the form tree (the form
  itself and every nested group, array and control), only the entry under the key
  \<open>backend\<close>: every other error entry of the node is left as it was, in the same order, and
  the node's value and touched flag are unchanged. A (truthy) \<open>backend\<close> entry is removed.
\<close>

theorem clearFormErrors_keeps_other_errors:
  assumes "control_at form addr = Some node"
  shows "\<exists>node'. control_at (clearFormErrors form) addr = Some node'
           \<and> other_entries (ctrl_errors node') = other_entries (ctrl_errors node)
           \<and> (\<forall>key. key \<noteq> ''backend'' \<longrightarrow> error_entry node' key = error_entry node key)
           \<and> (has_backend (ctrl_errors node) \<longrightarrow> error_entry node' ''backend'' = None)
           \<and> ctrl_touched node' = ctrl_touched node
           \<and> form_value node' = form_value node"
proof -
  from assms have at: "control_at (clearFormErrors form) addr = Some (clearFormErrors node)"
    by (simp add: control_at_clearFormErrors)
  have e: "ctrl_errors (clearFormErrors node) = without_backend (ctrl_errors node)"
    and t: "ctrl_touched (clearFormErrors node) = ctrl_touched node"
    using clearFormErrors_node by simp_all
  have o: "other_entries (ctrl_errors (clearFormErrors node)) = other_entries (ctrl_errors node)"
    by (simp add: e other_entries_without_backend)
  have k: "\<forall>key. key \<noteq> ''backend'' \<longrightarrow> error_entry (clearFormErrors node) key = error_entry node key"
    by (simp add: error_entry_def e map_of_without_backend)
  have b: "has_backend (ctrl_errors node) \<longrightarrow> error_entry (clearFormErrors node) ''backend'' = None"
    by (simp add: error_entry_def e backend_gone_without_backend)
  from at o k b t form_value_clearFormErrors [of node] show ?thesis by blast
qed

text \<open>The statement above, run on the example data.\<close>

theorem clearFormErrors_keeps_other_errors_witness:
  "control_at ex_mapped_form [0] = Some ex_name_control
   \<and> error_entry ex_name_control ''backend'' = Some (JStr ''Name is taken'')
   \<and> (\<exists>node'. control_at (clearFormErrors ex_mapped_form) [0] = Some node'
         \<and> other_entries (ctrl_errors node') = [(''required'', JBool True)]
         \<and> error_entry node' ''required'' = Some (JBool True)
         \<and> error_entry node' ''backend'' = None)
   \<and> ctrl_errors (clearFormErrors ex_mapped_form) = Some [(''atLeastOne'', JBool True)]"
proof -
  have a: "control_at ex_mapped_form [0] = Some ex_name_control"
    by (simp add: ex_mapped_form_def)
  have b: "error_entry ex_name_control ''backend'' = Some (JStr ''Name is taken'')"
    "error_entry ex_name_control ''required'' = Some (JBool True)"
    "has_backend (ctrl_errors ex_name_control)"
    "other_entries (ctrl_errors ex_name_control) = [(''required'', JBool True)]"
    by (simp_all add: ex_name_control_def error_entry_def has_backend_def other_entries_def)
  have c: "ctrl_errors (clearFormErrors ex_mapped_form) = Some [(''atLeastOne'', JBool True)]"
    by (simp add: ex_mapped_form_def without_backend_def has_backend_def)
  from clearFormErrors_keeps_other_errors [OF a] b
  have "\<exists>node'. control_at (clearFormErrors ex_mapped_form) [0] = Some node'
         \<and> other_entries (ctrl_errors node') = [(''required'', JBool True)]
         \<and> error_entry node' ''required'' = Some (JBool True)
         \<and> error_entry node' ''backend'' = None"
    by auto
  with a b c show ?thesis by blast
qed

lemmas path_defs = getControl_def array_at_def parseInt_def is_digit_def is_space_def
  digits_value_def toFormFieldName_def

lemmas mapper_defs = applyToForm_def groupErrorsByField_def group_step_def
  object_prototype_keys_def object_entries_def is_array_index_def apply_field_def
  backend_value_def is_general_def without_backend_def has_backend_def

text \<open>
  C1. The specification has a field-scoped server error end on the control that the internal
  path names, the external path \<^verbatim>\<open>Sections[0].Name\<close> standing for \<^verbatim>\<open>sections.0.name\<close>. The code
  lower-cases the first character of the whole path only: \<^verbatim>\<open>Sections[0].Name\<close> becomes
  \<^verbatim>\<open>sections.0.Name\<close>, which names no control of the menu form, and the error is not set on
  the section's name control.
\<close>

theorem section_name_error_is_not_mapped:
  "toFormFieldName ''Sections[0].Name'' = ''sections.0.Name''
   \<and> getControl ex_menu_form ''sections.0.name'' = Some [1, 0, 0]
   \<and> getControl ex_menu_form (toFormFieldName ''Sections[0].Name'') = None
   \<and> applyToForm ex_menu_form
        [\<lparr>message = ''required'', code = None, field = Some ''Sections[0].Name''\<rparr>]
        = (Inr (), ex_menu_form)
   \<and> map_option (\<lambda>c. error_entry c ''backend'') (control_at ex_menu_form [1, 0, 0]) = Some None"
  by (simp add: path_defs mapper_defs ex_menu_form_def ex_section_def error_entry_def)

text \<open>A path of one segment is mapped: the error reaches the control and marks it touched.\<close>

lemma name_error_is_mapped:
  "applyToForm ex_menu_form [\<lparr>message = ''too long'', code = None, field = Some ''Name''\<rparr>]
     = (Inr (), FormGroup
     [(''name'', FormControl (JStr ''Lunch'') (Some [(''backend'', JStr ''too long'')]) True),
      (''sections'', FormArray [ex_section] None False)] None True)"
  by (simp add: path_defs mapper_defs ex_menu_form_def ex_section_def)

text \<open>
  C7. The specification has an error whose path resolves to no control dropped silently. The
  grouping of the errors uses a plain object as its dictionary: for a field that is the name
  of a property of \<^verbatim>\<open>Object.prototype\<close> (here \<^verbatim>\<open>constructor\<close>), which resolves to no control of
  the menu form, \<^verbatim>\<open>applyToForm\<close> throws a \<^verbatim>\<open>TypeError\<close>.
\<close>

theorem applyToForm_throws_on_prototype_key:
  "getControl ex_menu_form (toFormFieldName ''constructor'') = None
   \<and> fst (applyToForm ex_menu_form [\<lparr>message = ''invalid'', code = None, field = Some ''constructor''\<rparr>])
       = Inl (ErrorInstance ''acc[error.field].push is not a function'')"
  by (simp add: path_defs mapper_defs ex_menu_form_def ex_section_def)

text \<open>
  For every other field the error is dropped silently: when the field is not the name of a
  property of \<^verbatim>\<open>Object.prototype\<close> and its path resolves to no control, \<^verbatim>\<open>applyToForm\<close> gives
  the outcome and the form it gives without that error. The proof follows the three steps of
  the code: the grouping, the order of the entries, the loop over them.
\<close>

lemma key_position_map:
  "key_position (map (\<lambda>kc. (fst kc, g (snd kc))) kids) k = key_position kids k"
  by (induction kids) auto

lemma key_position_less: "key_position kids k = Some i \<Longrightarrow> i < length kids"
  by (induction kids arbitrary: i) (auto split: if_splits)

lemma array_at_less: "array_at xs idx = Some i \<Longrightarrow> i < length xs"
  by (auto simp: array_at_def Let_def split: option.splits if_splits)

lemma array_at_map: "array_at (map g xs) idx = array_at xs idx"
  by (cases idx) (simp_all add: array_at_def)

lemma walk_shape: "walk (shape c) parts = walk c parts"
proof (induction parts arbitrary: c)
  case Nil
  show ?case by simp
next
  case (Cons part parts)
  show ?case
  proof (cases c)
    case (FormControl v e t)
    then show ?thesis by simp
  next
    case (FormGroup kids e t)
    show ?thesis
    proof (cases "key_position kids part")
      case None
      with FormGroup show ?thesis by (simp add: key_position_map)
    next
      case (Some i)
      then have "i < length kids" by (rule key_position_less)
      with FormGroup Some Cons.IH [of "snd (kids ! i)"] show ?thesis
        by (simp add: key_position_map)
    qed
  next
    case (FormArray kids e t)
    show ?thesis
    proof (cases "array_at kids (parseInt part)")
      case None
      with FormArray show ?thesis by (simp add: array_at_map)
    next
      case (Some i)
      then have "i < length kids" by (rule array_at_less)
      with FormArray Some Cons.IH [of "kids ! i"] show ?thesis
        by (simp add: array_at_map)
    qed
  qed
qed

lemma shape_setErrors: "shape (setErrors errs c) = shape c"
  by (cases c) simp_all

lemma shape_set_touched: "shape (set_touched c) = shape c"
  by (cases c) simp_all

lemma shape_setErrors_at: "shape (setErrors_at addr errs c) = shape c"
proof (induction addr arbitrary: c)
  case Nil
  show ?case by (simp add: shape_setErrors)
next
  case (Cons i rest)
  show ?case
    by (cases c) (simp_all add: Cons.IH map_update list_update_same_conv)
qed

lemma shape_markAsTouched_at: "shape (markAsTouched_at addr c) = shape c"
proof (induction addr arbitrary: c)
  case Nil
  show ?case by (simp add: shape_set_touched)
next
  case (Cons i rest)
  show ?case
    by (cases c) (simp_all add: Cons.IH map_update list_update_same_conv)
qed

lemma shape_clearFormErrors: "shape (clearFormErrors c) = shape c"
  by (induction c) (auto simp: snds.simps)

lemma shape_apply_field: "shape (apply_field c entry) = shape c"
  by (simp add: apply_field_def Let_def shape_markAsTouched_at shape_setErrors_at
      split: option.splits)

lemma getControl_same_shape: "shape c = shape c' \<Longrightarrow> getControl c path = getControl c' path"
  by (metis getControl_def walk_shape)

lemma map_of_other_groups: "g \<noteq> f \<Longrightarrow> map_of (other_groups f acc) g = map_of acc g"
  by (induction acc) (auto simp: other_groups_def)

lemma group_step_other_groups:
  assumes "other_groups f acc1 = other_groups f acc2"
    and "f \<notin> set object_prototype_keys"
  shows "rel_sum (=) (\<lambda>a b. other_groups f a = other_groups f b)
           (group_step acc1 err) (group_step acc2 err)"
proof (cases "field err")
  case None
  with assms show ?thesis by (simp add: group_step_def)
next
  case (Some g)
  show ?thesis
  proof (cases "g = [] \<or> g = f")
    case True
    then show ?thesis
    proof
      assume "g = []"
      with Some assms show ?thesis by (simp add: group_step_def)
    next
      assume "g = f"
      have upd: "other_groups f (map (\<lambda>kv. if fst kv = f then (f, snd kv @ [err]) else kv) acc)
          = other_groups f acc" for acc :: "(string \<times> ValidationError list) list"
        by (induction acc) (auto simp: other_groups_def)
      have app: "other_groups f (acc @ [(f, [err])]) = other_groups f acc"
        for acc :: "(string \<times> ValidationError list) list"
        by (simp add: other_groups_def)
      from \<open>g = f\<close> Some assms upd app show ?thesis
        by (auto simp: group_step_def split: option.splits)
    qed
  next
    case False
    then have g: "g \<noteq> []" "g \<noteq> f" by simp_all
    from g(2) assms(1) have m: "map_of acc1 g = map_of acc2 g"
      by (metis map_of_other_groups)
    have upd: "other_groups f (map (\<lambda>kv. if fst kv = g then (g, snd kv @ [err]) else kv) acc)
        = map (\<lambda>kv. if fst kv = g then (g, snd kv @ [err]) else kv) (other_groups f acc)"
      for acc :: "(string \<times> ValidationError list) list"
      using g(2) by (induction acc) (auto simp: other_groups_def)
    have app: "other_groups f (acc @ [(g, [err])]) = other_groups f acc @ [(g, [err])]"
      for acc :: "(string \<times> ValidationError list) list"
      using g(2) by (simp add: other_groups_def)
    from Some g m assms(1) upd app show ?thesis
      by (auto simp: group_step_def split: option.splits)
  qed
qed

lemma reduce_errors_other_groups:
  assumes "f \<notin> set object_prototype_keys"
  shows "other_groups f acc1 = other_groups f acc2 \<Longrightarrow>
     rel_sum (=) (\<lambda>a b. other_groups f a = other_groups f b)
       (reduce_errors acc1 errs) (reduce_errors acc2 errs)"
proof (induction errs arbitrary: acc1 acc2)
  case Nil
  then show ?case by simp
next
  case (Cons err errs)
  from group_step_other_groups [OF Cons.prems assms, of err]
  show ?case
    by (cases "group_step acc1 err"; cases "group_step acc2 err") (auto intro: Cons.IH)
qed

lemma reduce_errors_append:
  "reduce_errors acc (xs @ ys)
     = (case reduce_errors acc xs of Inl ex \<Rightarrow> Inl ex | Inr acc' \<Rightarrow> reduce_errors acc' ys)"
  by (induction xs arbitrary: acc) (auto split: sum.splits)

lemma group_step_own_field:
  assumes "field err = Some f" and "f \<noteq> []" and "f \<notin> set object_prototype_keys"
  shows "\<exists>acc'. group_step acc err = Inr acc' \<and> other_groups f acc' = other_groups f acc"
proof -
  have upd: "other_groups f (map (\<lambda>kv. if fst kv = f then (f, snd kv @ [err]) else kv) acc)
      = other_groups f acc"
    by (induction acc) (auto simp: other_groups_def)
  have app: "other_groups f (acc @ [(f, [err])]) = other_groups f acc"
    by (simp add: other_groups_def)
  from assms upd app show ?thesis
    by (auto simp: group_step_def split: option.splits)
qed

lemma groupErrorsByField_without:
  assumes "field err = Some f" and "f \<noteq> []" and "f \<notin> set object_prototype_keys"
  shows "rel_sum (=) (\<lambda>a b. other_groups f a = other_groups f b)
           (groupErrorsByField (xs @ err # ys)) (groupErrorsByField (xs @ ys))"
proof (cases "reduce_errors [] xs")
  case (Inl ex)
  then show ?thesis by (simp add: groupErrorsByField_def reduce_errors_append)
next
  case (Inr acc)
  from group_step_own_field [OF assms, of acc] obtain acc' where
    s: "group_step acc err = Inr acc'" and o: "other_groups f acc' = other_groups f acc" by blast
  from reduce_errors_other_groups [OF assms(3) o, of ys] Inr s show ?thesis
    by (simp add: groupErrorsByField_def reduce_errors_append)
qed

lemma other_groups_object_entries:
  "other_groups f (object_entries kvs) = object_entries (other_groups f kvs)"
  by (simp add: other_groups_def object_entries_def filter_sort conj_commute)

lemma foldl_apply_field_unresolved:
  "getControl c (toFormFieldName f) = None \<Longrightarrow>
     foldl apply_field c entries = foldl apply_field c (other_groups f entries)"
proof (induction entries arbitrary: c)
  case Nil
  show ?case by (simp add: other_groups_def)
next
  case (Cons entry entries)
  show ?case
  proof (cases "fst entry = f")
    case True
    with Cons.prems have "apply_field c entry = c" by (simp add: apply_field_def)
    with True Cons.IH [OF Cons.prems] show ?thesis by (simp add: other_groups_def)
  next
    case False
    have "getControl (apply_field c entry) (toFormFieldName f) = getControl c (toFormFieldName f)"
      by (rule getControl_same_shape) (rule shape_apply_field)
    with Cons.prems have "getControl (apply_field c entry) (toFormFieldName f) = None" by simp
    from Cons.IH [OF this] False show ?thesis by (simp add: other_groups_def)
  qed
qed

lemma unresolved_error_is_dropped:
  assumes "field err = Some f" and "f \<noteq> []" and "f \<notin> set object_prototype_keys"
    and "getControl form (toFormFieldName f) = None"
  shows "applyToForm form (xs @ err # ys) = applyToForm form (xs @ ys)"
proof -
  have g: "filter is_general (xs @ err # ys) = filter is_general (xs @ ys)"
    using assms(1,2) by (simp add: is_general_def)
  have n: "getControl (clearFormErrors form) (toFormFieldName f) = None"
    using assms(4) getControl_same_shape [OF shape_clearFormErrors] by simp
  note r = groupErrorsByField_without [OF assms(1-3), of xs ys]
  show ?thesis
  proof (cases "groupErrorsByField (xs @ err # ys)")
    case (Inl ex)
    with r show ?thesis
      by (cases "groupErrorsByField (xs @ ys)") (simp_all add: applyToForm_def)
  next
    case (Inr a)
    with r obtain b where b: "groupErrorsByField (xs @ ys) = Inr b"
      and o: "other_groups f a = other_groups f b"
      by (cases "groupErrorsByField (xs @ ys)") simp_all
    from o have "other_groups f (object_entries a) = other_groups f (object_entries b)"
      by (simp add: other_groups_object_entries)
    with foldl_apply_field_unresolved [OF n, of "object_entries a"]
      foldl_apply_field_unresolved [OF n, of "object_entries b"]
    have "foldl apply_field (clearFormErrors form) (object_entries a)
        = foldl apply_field (clearFormErrors form) (object_entries b)" by simp
    with Inr b g show ?thesis by (simp add: applyToForm_def)
  qed
qed

subsection \<open>Form submission\<close>

lemma all_touched_markAllAsTouched: "all_touched (markAllAsTouched c)"
  by (induction c) (auto simp: list_all_iff snds.simps)

text \<open>
  C5, as stated, fails for the cafe form dialog: on an invalid form its \<^verbatim>\<open>onSubmit\<close> issues no
  request, and marks nothing; the form is left as it was, with no control touched.
\<close>

theorem cafe_dialog_invalid_submit_marks_nothing:
  "invalid (cafeForm ex_cafe_dialog)
   \<and> CafeFormDialog_onSubmit ex_cafe_api ex_cafe_dialog ex_cafe_store
       = (Inr (), ex_cafe_dialog, ex_cafe_store, [])
   \<and> \<not> all_touched (cafeForm ex_cafe_dialog)
   \<and> \<not> ctrl_touched (cafeForm ex_cafe_dialog)"
  by (simp add: CafeFormDialog_onSubmit_def valid_def ex_cafe_dialog_def ex_cafe_form_def)

text \<open>
  C5, amended. Whenever the form is invalid, both submission entry points abort without a
  request and without a change to the store. The menu form page's \<^verbatim>\<open>onSubmit\<close> also marks all
  fields of the form touched; the cafe form dialog's \<^verbatim>\<open>onSubmit\<close> leaves the dialog and its form
  as they are.
\<close>

theorem invalid_submit_aborts:
  "(invalid (menuForm page) \<longrightarrow>
      (case MenuFormPage_onSubmit menuApi page ms of
         (r, page', ms', calls) \<Rightarrow>
           r = Inr () \<and> all_touched (menuForm page') \<and> calls = [] \<and> ms' = ms))
 \<and> (invalid (cafeForm dialog) \<longrightarrow>
      CafeFormDialog_onSubmit cafeApi dialog cs = (Inr (), dialog, cs, []))"
  by (simp add: MenuFormPage_onSubmit_def CafeFormDialog_onSubmit_def valid_def
      all_touched_markAllAsTouched)

text \<open>The statement above, run on the example data.\<close>

theorem invalid_submit_aborts_witness:
  "invalid (menuForm ex_menu_page)
   \<and> \<not> all_touched (menuForm ex_menu_page)
   \<and> (case MenuFormPage_onSubmit ex_menu_api ex_menu_page ex_menu_store of
         (r, page', ms', calls) \<Rightarrow>
           r = Inr () \<and> all_touched (menuForm page') \<and> calls = [] \<and> ms' = ex_menu_store)
   \<and> invalid (cafeForm ex_cafe_dialog)
   \<and> CafeFormDialog_onSubmit ex_cafe_api ex_cafe_dialog ex_cafe_store
        = (Inr (), ex_cafe_dialog, ex_cafe_store, [])"
proof -
  have m: "invalid (menuForm ex_menu_page)" "\<not> all_touched (menuForm ex_menu_page)"
    by (simp_all add: ex_menu_page_def ex_menu_form_def ex_section_def)
  have c: "invalid (cafeForm ex_cafe_dialog)"
    by (simp add: ex_cafe_dialog_def ex_cafe_form_def)
  note t = invalid_submit_aborts [where page = ex_menu_page and menuApi = ex_menu_api
      and ms = ex_menu_store and dialog = ex_cafe_dialog and cafeApi = ex_cafe_api
      and cs = ex_cafe_store]
  from t m(1) have a:
    "case MenuFormPage_onSubmit ex_menu_api ex_menu_page ex_menu_store of
       (r, page', ms', calls) \<Rightarrow>
         r = Inr () \<and> all_touched (menuForm page') \<and> calls = [] \<and> ms' = ex_menu_store"
    by (rule conjunct1 [THEN mp])
  from t c have b:
    "CafeFormDialog_onSubmit ex_cafe_api ex_cafe_dialog ex_cafe_store
       = (Inr (), ex_cafe_dialog, ex_cafe_store, [])"
    by (rule conjunct2 [THEN mp])
  from m c a b show ?thesis by (intro conjI)
qed

end
